theory Spec2Isabelle
  imports Complex_Main "HOL-Library.Log_Nat"
begin

section \<open>Data model\<close>

text \<open>
  A chat message as the hooks handle it. \<open>includeInContext\<close> and \<open>remainTokens\<close> are
  optional at run time: the first \<open>createMessage\<close> of the repository builds messages
  without them, and every load and save reads the flag as
  \<open>m?.includeInContext !== false\<close>. \<open>None\<close> is the absent field.
\<close>

record message =
  id_msg :: string
  text_msg :: string
  isUser :: bool
  timestamp :: int
  includeInContext :: "bool option"
  remainTokens :: "int option"

record conversationMeta =
  id_conv :: string
  modelId :: string
  title :: "string option"
  summary :: "string option"
  createdAt :: string
  updatedAt :: string
  lastMessagePreview :: "string option"

text \<open>
  The key/value store holds structured values under string keys. \<open>load<T>\<close> is an
  unchecked cast in the source, so a stored value keeps its own shape.
\<close>

datatype stored =
  Messages "message list"
  | Conversations "conversationMeta list"
  | Str string

type_synonym storage = "string \<rightharpoonup> stored"

text \<open>
  Modelled from the spec: \<open>utils/storage\<close> is not among the sources. The spec gives a
  synchronous \<open>save(key, value)\<close>, \<open>load(key) -> value|undefined\<close> and \<open>remove(key)\<close>
  with round-trip fidelity.
\<close>

definition load :: "storage \<Rightarrow> string \<Rightarrow> stored option" where
  "load st k = st k"

definition save :: "string \<Rightarrow> stored \<Rightarrow> storage \<Rightarrow> storage" where
  "save k v st = st(k \<mapsto> v)"

definition remove :: "string \<Rightarrow> storage \<Rightarrow> storage" where
  "remove k st = st(k := None)"

text \<open>
  The key derivations \<open>getConversationListKey\<close>, \<open>getMessagesKey\<close> and
  \<open>getLastConversationKey\<close> live in \<open>hooks/models\<close>, which is not among the sources:
  they are parameters of every operation that uses them.
\<close>

record persistenceKeys =
  getConversationListKey :: "string \<Rightarrow> string"
  getMessagesKey :: "string \<Rightarrow> string"
  getLastConversationKey :: "string \<Rightarrow> string"

text \<open>JavaScript truthiness of an optional string: \<open>undefined\<close>, \<open>null\<close> and \<open>""\<close> are falsy.\<close>

fun truthy :: "string option \<Rightarrow> bool" where
  "truthy None = False"
| "truthy (Some s) = (s \<noteq> [])"

text \<open>\<open>v?.length\<close> of a loaded value: the element count of an array, the length of a string.\<close>

fun storedLength :: "stored \<Rightarrow> nat" where
  "storedLength (Messages ms) = length ms"
| "storedLength (Conversations cs) = length cs"
| "storedLength (Str s) = length s"

fun hasLength :: "stored option \<Rightarrow> bool" where
  "hasLength None = False"
| "hasLength (Some v) = (0 < storedLength v)"

text \<open>
  \<open>load<Message[]>(key) || []\<close> as a typed list. Only message lists are ever written
  under a message key; a value of another shape is read as no messages.
\<close>

fun loadMessages :: "storage \<Rightarrow> string \<Rightarrow> message list" where
  "loadMessages st k = (case load st k of Some (Messages ms) \<Rightarrow> ms | _ \<Rightarrow> [])"

section \<open>useMessages\<close>

text \<open>\<open>{ ...m, includeInContext: m?.includeInContext !== false }\<close>\<close>

definition withContextFlag :: "message \<Rightarrow> message" where
  "withContextFlag m = m\<lparr>includeInContext := Some (includeInContext m \<noteq> Some False)\<rparr>"

text \<open>
  The expression \<open>[...list].map(withContextFlag).reverse()\<close>, which the hook applies on
  every write (in-memory to storage) and on every read (storage to in-memory).
\<close>

definition flipOrder :: "message list \<Rightarrow> message list" where
  "flipOrder ms = rev (map withContextFlag ms)"

record messagesHook =
  messagesState :: "message list"
  msgRef :: "message list"
  conversationIdRef :: "string option"
  prevConversationIdRef :: "string option"

text \<open>
  The custom \<open>setMessages\<close> hands React an updater that sets the state and, in the same
  step, \<open>msgRef\<close>. React runs it when it processes the update, at the latest during the
  next render; the model is the hook once the update is processed.
\<close>

definition setMessages :: "message list \<Rightarrow> messagesHook \<Rightarrow> messagesHook" where
  "setMessages next h = h\<lparr>messagesState := next, msgRef := next\<rparr>"

text \<open>
  \<open>createMessage\<close> of this hook (the single-hook \<open>useAiChat\<close> has its own, further down):
  every new message carries the flag.
\<close>

definition createMessage_useMessages :: "string \<Rightarrow> int \<Rightarrow> string \<Rightarrow> bool \<Rightarrow> message" where
  "createMessage_useMessages newId now t u =
     \<lparr>id_msg = newId, text_msg = t, isUser = u, timestamp = now,
      includeInContext = Some True, remainTokens = Some 0\<rparr>"

text \<open>\<open>prependMessages\<close>: new messages go to the front of the newest-first list.\<close>

definition prependMessages :: "message list \<Rightarrow> messagesHook \<Rightarrow> messagesHook" where
  "prependMessages newMessages h = setMessages (newMessages @ messagesState h) h"

text \<open>
  \<open>saveMessages\<close>. The parent's \<open>onMessagesChange\<close> callback is a parameter: it receives
  the in-memory list and may write to storage itself.
\<close>

definition saveMessages ::
  "persistenceKeys \<Rightarrow> (message list \<Rightarrow> storage \<Rightarrow> storage) option
    \<Rightarrow> messagesHook \<Rightarrow> storage \<Rightarrow> storage" where
  "saveMessages K onMessagesChange h st =
     (if \<not> truthy (conversationIdRef h) \<or> msgRef h = [] then st
      else
        let storageKey = getMessagesKey K (the (conversationIdRef h));
            st1 = save storageKey (Messages (flipOrder (msgRef h))) st
        in case onMessagesChange of None \<Rightarrow> st1 | Some notify \<Rightarrow> notify (msgRef h) st1)"

text \<open>
  The body of the effect that runs when \<open>conversationId\<close> changes: it persists the
  previous conversation's buffer, then loads the new conversation.
\<close>

definition loadOnConversationChange ::
  "persistenceKeys \<Rightarrow> string option \<Rightarrow> messagesHook \<Rightarrow> storage \<Rightarrow> messagesHook \<times> storage" where
  "loadOnConversationChange K conversationId h st =
     (let st1 =
            (if truthy (prevConversationIdRef h) \<and> prevConversationIdRef h \<noteq> conversationId
                \<and> msgRef h \<noteq> []
             then save (getMessagesKey K (the (prevConversationIdRef h)))
                    (Messages (flipOrder (msgRef h))) st
             else st);
          h1 =
            (if truthy conversationId then
               let listMsg = loadMessages st1 (getMessagesKey K (the conversationId))
               in if listMsg \<noteq> [] then setMessages (flipOrder listMsg) h
                  else setMessages [] h
             else setMessages [] h)
      in (h1\<lparr>prevConversationIdRef := conversationId\<rparr>, st1))"

text \<open>
  The cleanup of that effect, for the \<open>conversationId\<close> it was set up with: it persists a
  non-empty buffer and clears \<open>msgRef\<close>.
\<close>

definition cleanupOnConversationChange ::
  "persistenceKeys \<Rightarrow> string option \<Rightarrow> messagesHook \<Rightarrow> storage \<Rightarrow> messagesHook \<times> storage" where
  "cleanupOnConversationChange K conversationId h st =
     (h\<lparr>msgRef := []\<rparr>,
      if truthy conversationId \<and> msgRef h \<noteq> []
      then save (getMessagesKey K (the conversationId)) (Messages (flipOrder (msgRef h))) st
      else st)"

text \<open>\<open>totalToken\<close>: filter on the flag, map to the text, join, length.\<close>

definition totalToken :: "message list \<Rightarrow> nat" where
  "totalToken messages =
     length (concat (map text_msg (filter (\<lambda>item. includeInContext item = Some True) messages)))"

section \<open>useConversations\<close>

record conversationsHook =
  conversations :: "conversationMeta list"
  activeConversationId :: "string option"
  isMountedRef_conv :: bool
  conversationsRef :: "conversationMeta list"

text \<open>
  The outcome of the awaited \<open>promptAI\<close> call: it rejects, or resolves to a string.
\<close>

datatype promptOutcome = PromptRejected | PromptResolved string

text \<open>
  \<open>[...list].sort((a, b) => new Date(b.updatedAt).getTime() - new Date(a.updatedAt).getTime())\<close>:
  a stable sort by descending time. \<open>getTime\<close> stands for the platform's
  \<open>new Date(s).getTime()\<close>; every \<open>updatedAt\<close> is written by \<open>toISOString\<close>, so it
  is a number.
\<close>

definition sortByUpdatedDesc ::
  "(string \<Rightarrow> int) \<Rightarrow> conversationMeta list \<Rightarrow> conversationMeta list" where
  "sortByUpdatedDesc getTime list = sort_key (\<lambda>c. - getTime (updatedAt c)) list"

text \<open>\<open>lastMessage?.text?.slice(0, 100) || null\<close> for the last element of the loaded value.\<close>

fun previewOfLast :: "stored \<Rightarrow> string option" where
  "previewOfLast (Messages ms) =
     (if ms = [] then None
      else let t = take 100 (text_msg (last ms)) in if t = [] then None else Some t)"
| "previewOfLast (Conversations cs) = None"
| "previewOfLast (Str s) = None"

definition DEFAULT_TITLE :: string where
  "DEFAULT_TITLE = ''Chat 1''"

definition titleFrom :: "promptOutcome \<Rightarrow> string option" where
  "titleFrom r =
     (case r of
        PromptRejected \<Rightarrow> Some DEFAULT_TITLE
      | PromptResolved summaryResult \<Rightarrow>
          if summaryResult \<noteq> [] then Some (take 50 summaryResult) else Some DEFAULT_TITLE)"

definition migratedMeta ::
  "string \<Rightarrow> string \<Rightarrow> string \<Rightarrow> promptOutcome \<Rightarrow> stored \<Rightarrow> conversationMeta" where
  "migratedMeta m conversationId now r legacyMessages =
     \<lparr>id_conv = conversationId, modelId = m, title = titleFrom r, summary = None,
      createdAt = now, updatedAt = now, lastMessagePreview = previewOfLast legacyMessages\<rparr>"

text \<open>
  \<open>migrateLegacyData\<close>. \<open>conversationId\<close> is what \<open>generateId()\<close> returns, \<open>now\<close> what
  \<open>new Date().toISOString()\<close> returns, \<open>r\<close> the outcome of \<open>promptAI\<close>. The call is taken
  as uninterrupted: nothing else touches the store while \<open>promptAI\<close> is awaited.
\<close>

definition migrateLegacyData ::
  "persistenceKeys \<Rightarrow> string option \<Rightarrow> string \<Rightarrow> string \<Rightarrow> promptOutcome
    \<Rightarrow> conversationsHook \<Rightarrow> storage \<Rightarrow> bool \<times> conversationsHook \<times> storage" where
  "migrateLegacyData K modelIdOpt conversationId now r h st =
     (if \<not> truthy modelIdOpt then (False, h, st)
      else
        let m = the modelIdOpt;
            legacyMessages = load st m
        in if \<not> hasLength legacyMessages then (False, h, st)
           else
             let listKey = getConversationListKey K m;
                 existingList = load st listKey
             in if hasLength existingList then (False, h, st)
                else
                  let meta = migratedMeta m conversationId now r (the legacyMessages);
                      messagesKey = getMessagesKey K conversationId;
                      st1 = save messagesKey (the legacyMessages) st;
                      st2 = save listKey (Conversations [meta]) st1;
                      st3 = save (getLastConversationKey K m) (Str conversationId) st2;
                      st4 = remove m st3;
                      h1 = (if isMountedRef_conv h
                            then h\<lparr>conversationsRef := [meta], conversations := [meta],
                                   activeConversationId := Some conversationId\<rparr>
                            else h)
                  in (True, h1, st4))"

text \<open>
  \<open>deleteConversation\<close>. The updater passed to \<open>setActiveConversationId\<close> runs on the
  current active id and performs its writes then.
\<close>

definition deleteConversation ::
  "persistenceKeys \<Rightarrow> (string \<Rightarrow> int) \<Rightarrow> string option \<Rightarrow> string
    \<Rightarrow> conversationsHook \<Rightarrow> storage \<Rightarrow> conversationsHook \<times> storage" where
  "deleteConversation K getTime modelIdOpt conversationId h st =
     (if \<not> truthy modelIdOpt then (h, st)
      else
        let m = the modelIdOpt;
            st1 = remove (getMessagesKey K conversationId) st;
            listKey = getConversationListKey K m;
            updatedList = filter (\<lambda>c. id_conv c \<noteq> conversationId) (conversationsRef h);
            st2 = save listKey (Conversations updatedList) st1;
            h1 = h\<lparr>conversations := updatedList\<rparr>
        in if activeConversationId h1 = Some conversationId then
             (if updatedList \<noteq> [] then
                let sorted = sortByUpdatedDesc getTime updatedList
                in (h1\<lparr>activeConversationId := Some (id_conv (hd sorted))\<rparr>,
                    save (getLastConversationKey K m) (Str (id_conv (hd sorted))) st2)
              else (h1\<lparr>activeConversationId := None\<rparr>,
                    remove (getLastConversationKey K m) st2))
           else (h1, st2))"

text \<open>\<open>deleteAllConversations\<close>: the \<open>forEach\<close> over \<open>conversationsRef.current\<close> is a fold.\<close>

definition deleteAllConversations ::
  "persistenceKeys \<Rightarrow> string option \<Rightarrow> conversationsHook \<Rightarrow> storage
    \<Rightarrow> conversationsHook \<times> storage" where
  "deleteAllConversations K modelIdOpt h st =
     (if \<not> truthy modelIdOpt then (h, st)
      else
        let m = the modelIdOpt;
            st1 = foldl (\<lambda>s c. remove (getMessagesKey K (id_conv c)) s) st (conversationsRef h);
            st2 = remove (getConversationListKey K m) st1;
            st3 = remove (getLastConversationKey K m) st2
        in (h\<lparr>conversationsRef := [], conversations := [], activeConversationId := None\<rparr>, st3))"

section \<open>Model lifecycle and message stream (the single-hook useAiChat)\<close>

text \<open>
  The hook's asynchronous functions run in segments: from the call, or from the point
  where an awaited promise settles, up to the next \<open>await\<close>. Each segment is a function
  on the hook's state; what the awaited capability answers is an argument.
\<close>

datatype 'a outcome = Rejected | Resolved 'a

datatype modelStatus = not_setup | downloading | preparing | ready

datatype role = User | Assistant

datatype streamParams =
  WithMessages "(role \<times> string) list"
  | WithPrompt string

text \<open>Invocations of the inference capability, logged in the order they are issued.\<close>

datatype capabilityCall =
  IsDownloaded string
  | Download string
  | Prepare string
  | Unload string
  | RemoveModel string
  | StreamText streamParams

text \<open>
  \<open>modelRef\<close> holds the model instance, named by its model id. \<open>abortedControllers\<close> is
  the store of \<open>AbortController\<close> objects: the ones whose signal is aborted.
  \<open>scrollRequests\<close> counts the calls of \<open>scrollToBottomDebounced\<close>.
\<close>

record aiChat =
  messages :: "message list"
  inputText :: string
  modelStatus :: modelStatus
  downloadProgress :: rat
  selectedModelId :: "string option"
  useContextHistory :: bool
  modelRef :: "string option"
  isSetupInProgressRef :: bool
  isMountedRef :: bool
  streamAbortControllerRef :: "nat option"
  isLoading :: bool
  abortedControllers :: "nat set"
  scrollRequests :: nat
  calls :: "capabilityCall list"

definition STORAGE_KEY_SELECTED_MODEL :: string where
  "STORAGE_KEY_SELECTED_MODEL = ''ai_selected_model_id''"

definition ERROR_MESSAGE :: string where
  "ERROR_MESSAGE = ''Sorry, an error occurred. Please try again.''"

definition invoke :: "capabilityCall \<Rightarrow> aiChat \<Rightarrow> aiChat" where
  "invoke c a = a\<lparr>calls := calls a @ [c]\<rparr>"

text \<open>
  \<open>checkModelExists\<close>, with the answers of \<open>isDownloaded()\<close> and \<open>prepare()\<close>. The whole
  body is inside \<open>try\<close>; the \<open>catch\<close> logs and returns false.
\<close>

definition checkModelExists ::
  "string option \<Rightarrow> bool outcome \<Rightarrow> unit outcome \<Rightarrow> aiChat \<Rightarrow> storage
    \<Rightarrow> bool \<times> aiChat \<times> storage" where
  "checkModelExists modelIdArg isDownloadedResult prepareResult a st =
     (let modelToCheck = (if truthy modelIdArg then modelIdArg else selectedModelId a)
      in if \<not> truthy modelToCheck then (False, a, st)
         else
           let m = the modelToCheck;
               a1 = invoke (IsDownloaded m) a
           in case isDownloadedResult of
                Rejected \<Rightarrow> (False, a1, st)
              | Resolved isDownloaded \<Rightarrow>
                  if isDownloaded then
                    let a2 = invoke (Prepare m) (a1\<lparr>modelStatus := preparing\<rparr>)
                    in case prepareResult of
                         Rejected \<Rightarrow> (False, a2, st)
                       | Resolved u \<Rightarrow>
                           (True,
                            a2\<lparr>modelRef := Some m, selectedModelId := Some m,
                               modelStatus := ready\<rparr>,
                            save STORAGE_KEY_SELECTED_MODEL (Str m) st)
                  else (False, a1, st))"

text \<open>
  \<open>removeModel\<close> of the lifecycle (\<open>removeModelFromDevice\<close> in the composing hook). A
  rejected \<open>unload()\<close> is caught and logged, and \<open>modelRef\<close> is cleared either way; a
  rejected \<open>remove()\<close> is caught by the outer \<open>catch\<close>.
\<close>

definition removeModelFromDevice ::
  "unit outcome \<Rightarrow> aiChat \<Rightarrow> storage \<Rightarrow> aiChat \<times> storage" where
  "removeModelFromDevice removeResult a st =
     (let a1 = (case modelRef a of
                  None \<Rightarrow> a
                | Some inst \<Rightarrow> (invoke (Unload inst) a)\<lparr>modelRef := None\<rparr>)
      in if \<not> truthy (selectedModelId a) then (a1, st)
         else
           let a2 = invoke (RemoveModel (the (selectedModelId a))) a1
           in case removeResult of
                Rejected \<Rightarrow> (a2, st)
              | Resolved u \<Rightarrow>
                  (a2\<lparr>modelStatus := not_setup, downloadProgress := 0,
                      selectedModelId := None\<rparr>,
                   remove STORAGE_KEY_SELECTED_MODEL st))"

subsection \<open>setupModel\<close>

text \<open>
  \<open>setupModel\<close> closes over \<open>modelStatus\<close> and \<open>selectedModelId\<close> of the render that
  created it; two calls in quick succession may share one closure, so these values are an
  argument. The refs are read live.
\<close>

record setupClosure =
  seenModelStatus :: modelStatus
  seenSelectedModelId :: "string option"

text \<open>Where a running \<open>setupModel\<close> is suspended: the new model id, and the old one.\<close>

datatype setupTask =
  AwaitUnload string string
  | AwaitRemoveOld string string
  | AwaitDownload string
  | AwaitPrepare string

text \<open>
  What reaches a suspended setup: the awaited promise settles, or the download reports
  progress (\<open>None\<close>: the event has no numeric \<open>percentage\<close>). The progress callback
  exists from the call of \<open>download\<close> on; before that a progress event finds nothing to
  run.
\<close>

datatype setupEvent = Settled "unit outcome" | Progress "rat option"

text \<open>The \<open>finally\<close> block.\<close>

definition finishSetup :: "aiChat \<Rightarrow> aiChat" where
  "finishSetup a = a\<lparr>isSetupInProgressRef := False\<rparr>"

text \<open>The outer \<open>catch\<close>, then \<open>finally\<close>.\<close>

definition failSetup :: "aiChat \<Rightarrow> aiChat" where
  "failSetup a =
     finishSetup (if isMountedRef a then a\<lparr>modelStatus := not_setup, downloadProgress := 0\<rparr>
                  else a)"

text \<open>From the mount check before the download up to \<open>await model.download(...)\<close>.\<close>

definition startDownload :: "string \<Rightarrow> aiChat \<Rightarrow> aiChat \<times> setupTask option" where
  "startDownload newId a =
     (if \<not> isMountedRef a then (finishSetup a, None)
      else (invoke (Download newId) (a\<lparr>modelStatus := downloading, downloadProgress := 0\<rparr>),
            Some (AwaitDownload newId)))"

text \<open>After the inner \<open>try/catch\<close> around the removal of the old model.\<close>

definition afterOldModel :: "string \<Rightarrow> aiChat \<Rightarrow> aiChat \<times> setupTask option" where
  "afterOldModel newId a =
     startDownload newId
       (if isMountedRef a then a\<lparr>modelStatus := not_setup, downloadProgress := 0\<rparr> else a)"

definition setupModel :: "setupClosure \<Rightarrow> string \<Rightarrow> aiChat \<Rightarrow> aiChat \<times> setupTask option" where
  "setupModel cl newId a =
     (if isSetupInProgressRef a then (a, None)
      else if Some newId = seenSelectedModelId cl \<and> seenModelStatus cl = ready then (a, None)
      else
        let a1 = a\<lparr>isSetupInProgressRef := True\<rparr>
        in if Some newId \<noteq> seenSelectedModelId cl \<and> truthy (seenSelectedModelId cl) then
             (let old = the (seenSelectedModelId cl)
              in case modelRef a1 of
                   Some inst \<Rightarrow> (invoke (Unload inst) a1, Some (AwaitUnload newId old))
                 | None \<Rightarrow> (invoke (RemoveModel old) a1, Some (AwaitRemoveOld newId old)))
           else startDownload newId a1)"

fun resumeSetup ::
  "setupTask \<Rightarrow> setupEvent \<Rightarrow> aiChat \<Rightarrow> storage \<Rightarrow> (aiChat \<times> storage) \<times> setupTask option" where
  "resumeSetup (AwaitUnload newId old) (Settled (Resolved u)) a st =
     ((invoke (RemoveModel old) (a\<lparr>modelRef := None\<rparr>), st), Some (AwaitRemoveOld newId old))"
| "resumeSetup (AwaitUnload newId old) (Settled Rejected) a st =
     (let (a1, t) = afterOldModel newId a in ((a1, st), t))"
| "resumeSetup (AwaitRemoveOld newId old) (Settled r) a st =
     (let (a1, t) = afterOldModel newId a in ((a1, st), t))"
| "resumeSetup (AwaitDownload newId) (Progress p) a st =
     (((case p of
          Some percentage \<Rightarrow> if isMountedRef a then a\<lparr>downloadProgress := percentage\<rparr> else a
        | None \<Rightarrow> a), st),
      Some (AwaitDownload newId))"
| "resumeSetup (AwaitDownload newId) (Settled (Resolved u)) a st =
     (if \<not> isMountedRef a then ((finishSetup a, st), None)
      else ((invoke (Prepare newId) (a\<lparr>downloadProgress := 100, modelStatus := preparing\<rparr>), st),
            Some (AwaitPrepare newId)))"
| "resumeSetup (AwaitDownload newId) (Settled Rejected) a st = ((failSetup a, st), None)"
| "resumeSetup (AwaitPrepare newId) (Settled (Resolved u)) a st =
     (if isMountedRef a
      then ((finishSetup (a\<lparr>modelRef := Some newId, selectedModelId := Some newId,
                             modelStatus := ready\<rparr>),
             save STORAGE_KEY_SELECTED_MODEL (Str newId) st), None)
      else ((finishSetup a, st), None))"
| "resumeSetup (AwaitPrepare newId) (Settled Rejected) a st = ((failSetup a, st), None)"
| "resumeSetup (AwaitPrepare newId) (Progress p) a st =
     (((case p of
          Some percentage \<Rightarrow> if isMountedRef a then a\<lparr>downloadProgress := percentage\<rparr> else a
        | None \<Rightarrow> a), st),
      Some (AwaitPrepare newId))"
| "resumeSetup t (Progress p) a st = ((a, st), Some t)"

text \<open>The cleanup of the mount effect.\<close>

definition unmount :: "aiChat \<Rightarrow> aiChat" where
  "unmount a =
     (let a1 = a\<lparr>isMountedRef := False\<rparr>;
          a2 = (case streamAbortControllerRef a1 of
                  Some c \<Rightarrow> a1\<lparr>abortedControllers := insert c (abortedControllers a1),
                               streamAbortControllerRef := None\<rparr>
                | None \<Rightarrow> a1)
      in case modelRef a2 of
           Some inst \<Rightarrow> (invoke (Unload inst) a2)\<lparr>modelRef := None\<rparr>
         | None \<Rightarrow> a2)"

text \<open>
  A session: the hook, the store, and the setups that are suspended at an \<open>await\<close>.
  Single-threaded scheduling: one event at a time runs one segment to its end.
\<close>

record session =
  chat :: aiChat
  store :: storage
  inFlight :: "setupTask list"

datatype sessionEvent =
  CallSetup setupClosure string
  | Deliver nat setupEvent
  | Unmount

fun dropAt :: "nat \<Rightarrow> 'a list \<Rightarrow> 'a list" where
  "dropAt i xs = take i xs @ drop (Suc i) xs"

fun step :: "session \<Rightarrow> sessionEvent \<Rightarrow> session" where
  "step s (CallSetup cl newId) =
     (case setupModel cl newId (chat s) of
        (a, None) \<Rightarrow> s\<lparr>chat := a\<rparr>
      | (a, Some t) \<Rightarrow> s\<lparr>chat := a, inFlight := inFlight s @ [t]\<rparr>)"
| "step s (Deliver i ev) =
     (if i < length (inFlight s) then
        (case resumeSetup (inFlight s ! i) ev (chat s) (store s) of
           ((a, st), None) \<Rightarrow> s\<lparr>chat := a, store := st, inFlight := dropAt i (inFlight s)\<rparr>
         | ((a, st), Some t) \<Rightarrow> s\<lparr>chat := a, store := st, inFlight := (inFlight s)[i := t]\<rparr>)
      else s)"
| "step s Unmount = s\<lparr>chat := unmount (chat s)\<rparr>"

definition run :: "session \<Rightarrow> sessionEvent list \<Rightarrow> session" where
  "run s evs = foldl step s evs"

text \<open>
  The setup flag is set exactly while a setup is suspended, and at most one is.
\<close>

definition singleFlight :: "session \<Rightarrow> bool" where
  "singleFlight s \<longleftrightarrow>
     length (inFlight s) \<le> 1 \<and> (isSetupInProgressRef (chat s) \<longleftrightarrow> inFlight s \<noteq> [])"

subsection \<open>handleSend\<close>

definition SCROLL_THROTTLE_MS :: int where
  "SCROLL_THROTTLE_MS = 200"

text \<open>
  A character of the model is a code unit below 256. White space as
  \<open>String.prototype.trim\<close> and the regular expression's \<open>\s\<close> see it: tab, line feed,
  vertical tab, form feed, carriage return, space and the no-break space U+00A0 (the other
  white space characters of the platform lie above 255).
\<close>

definition isSpace :: "char \<Rightarrow> bool" where
  "isSpace c \<longleftrightarrow>
     c \<in> {CHR '' '', CHR 0x09, CHR 0x0A, CHR 0x0B, CHR 0x0C, CHR 0x0D, CHR 0xA0}"

definition trim :: "string \<Rightarrow> string" where
  "trim s = rev (dropWhile isSpace (rev (dropWhile isSpace s)))"

text \<open>
  \<open>createMessage\<close> of this hook; \<open>newId\<close> and \<open>now\<close> are what \<open>Date.now()\<close>,
  \<open>Math.random()\<close> and \<open>new Date()\<close> give.
\<close>

definition createMessage :: "string \<Rightarrow> int \<Rightarrow> string \<Rightarrow> bool \<Rightarrow> message" where
  "createMessage newId now t u =
     \<lparr>id_msg = newId, text_msg = t, isUser = u, timestamp = now,
      includeInContext = None, remainTokens = None\<rparr>"

text \<open>What one running \<open>handleSend\<close> holds in its local variables.\<close>

record sendTask =
  aiMessageId :: string
  abortController :: nat
  fullText :: string
  started :: bool
  lastScrollTime :: int

datatype streamEvent = Delta string int | StreamEnd | StreamError

definition scrollToBottomDebounced :: "aiChat \<Rightarrow> aiChat" where
  "scrollToBottomDebounced a = a\<lparr>scrollRequests := Suc (scrollRequests a)\<rparr>"

text \<open>\<open>prev.map((msg) => (msg.id === aiMessageId ? { ...msg, text } : msg))\<close>\<close>

definition setTextById :: "string \<Rightarrow> string \<Rightarrow> message list \<Rightarrow> message list" where
  "setTextById targetId t prev =
     map (\<lambda>msg. if id_msg msg = targetId then msg\<lparr>text_msg := t\<rparr> else msg) prev"

text \<open>The \<open>finally\<close> block.\<close>

definition releaseStream :: "aiChat \<Rightarrow> aiChat" where
  "releaseStream a = a\<lparr>streamAbortControllerRef := None\<rparr>"

text \<open>The \<open>catch\<close> block, then \<open>finally\<close>.\<close>

definition onStreamError :: "sendTask \<Rightarrow> aiChat \<Rightarrow> aiChat" where
  "onStreamError t a =
     releaseStream
       (if \<not> isMountedRef a \<or> abortController t \<in> abortedControllers a then a
        else scrollToBottomDebounced
               (a\<lparr>messages := setTextById (aiMessageId t) ERROR_MESSAGE (messages a),
                  isLoading := False\<rparr>))"

text \<open>The end of the \<open>for await\<close> loop, then \<open>finally\<close>.\<close>

definition onStreamEnd :: "sendTask \<Rightarrow> aiChat \<Rightarrow> aiChat" where
  "onStreamEnd t a =
     releaseStream
       (if isMountedRef a \<and> abortController t \<notin> abortedControllers a
        then scrollToBottomDebounced (a\<lparr>isLoading := False\<rparr>)
        else a)"

text \<open>One round of the loop; \<open>now\<close> is \<open>Date.now()\<close> in that round.\<close>

definition onDelta :: "sendTask \<Rightarrow> string \<Rightarrow> int \<Rightarrow> aiChat \<Rightarrow> aiChat \<times> sendTask" where
  "onDelta t delta now a =
     (let full = (if \<not> started t then delta else fullText t @ delta);
          a1 = a\<lparr>messages := setTextById (aiMessageId t) full (messages a)\<rparr>
      in if now - lastScrollTime t > SCROLL_THROTTLE_MS
         then (scrollToBottomDebounced a1,
               t\<lparr>fullText := full, started := True, lastScrollTime := now\<rparr>)
         else (a1, t\<lparr>fullText := full, started := True\<rparr>))"

fun resumeSend :: "sendTask \<Rightarrow> streamEvent \<Rightarrow> aiChat \<Rightarrow> aiChat \<times> sendTask option" where
  "resumeSend t (Delta delta now) a = (let (a1, t1) = onDelta t delta now a in (a1, Some t1))"
| "resumeSend t StreamEnd a = (onStreamEnd t a, None)"
| "resumeSend t StreamError a = (onStreamError t a, None)"

text \<open>
  \<open>handleSend\<close> up to the first round of the loop. It is called on the render that
  created it, so what it closes over is read from the state. \<open>userStamp\<close> and \<open>aiStamp\<close>
  are the id and time of the two new messages, \<open>ctl\<close> the new \<open>AbortController\<close>,
  \<open>streamStart\<close> whether \<open>streamText(...)\<close> returns or throws.
\<close>

definition handleSend ::
  "string \<times> int \<Rightarrow> string \<times> int \<Rightarrow> nat \<Rightarrow> unit outcome \<Rightarrow> aiChat
    \<Rightarrow> aiChat \<times> sendTask option" where
  "handleSend userStamp aiStamp ctl streamStart a =
     (if trim (inputText a) = [] \<or> isLoading a \<or> modelStatus a \<noteq> ready \<or> modelRef a = None
      then (a, None)
      else
        let userMessageText = trim (inputText a);
            userMessage = createMessage (fst userStamp) (snd userStamp) userMessageText True;
            aiMessage = createMessage (fst aiStamp) (snd aiStamp) [] False;
            messagesWithNewUser = messages a @ [userMessage, aiMessage];
            a1 = scrollToBottomDebounced
                   (a\<lparr>inputText := [], messages := messages a @ [userMessage, aiMessage],
                      isLoading := True\<rparr>);
            a2 = a1\<lparr>streamAbortControllerRef := Some ctl\<rparr>;
            t = \<lparr>aiMessageId = id_msg aiMessage, abortController = ctl, fullText = [],
                 started = False, lastScrollTime = 0\<rparr>
        in if modelRef a2 = None \<or> \<not> isMountedRef a2 then (releaseStream a2, None)
           else
             let params =
                   (if useContextHistory a
                    then WithMessages
                           (map (\<lambda>msg. (if isUser msg then User else Assistant, text_msg msg))
                              (filter (\<lambda>msg. id_msg msg \<noteq> id_msg aiMessage
                                              \<and> trim (text_msg msg) \<noteq> [])
                                 messagesWithNewUser))
                    else WithPrompt userMessageText);
                 a3 = invoke (StreamText params) a2
             in case streamStart of
                  Rejected \<Rightarrow> (onStreamError t a3, None)
                | Resolved u \<Rightarrow> (a3, Some t))"

section \<open>parseSizeToBytes\<close>

text \<open>
  A JavaScript number, as far as this function meets it: \<open>NaN\<close>, \<open>Infinity\<close>, or a finite
  double, given by its exact value. No negative number arises.
\<close>

datatype jsNumber = NaN | Infinity | Num rat

definition pow2 :: "int \<Rightarrow> rat" where
  "pow2 k = (if 0 \<le> k then of_int (2 ^ nat k) else 1 / of_int (2 ^ nat (- k)))"

text \<open>Rounding to the nearest integer, ties to the even one.\<close>

definition roundHalfEven :: "rat \<Rightarrow> int" where
  "roundHalfEven r =
     (let f = \<lfloor>r\<rfloor>;
          rest = r - of_int f
      in if rest < 1 / 2 then f
         else if 1 / 2 < rest then f + 1
         else if even f then f else f + 1)"

text \<open>
  The double nearest to \<open>n / d\<close>, for \<open>0 \<le> n\<close> and \<open>0 < d\<close> (IEEE 754 binary64, round
  to nearest, ties to even):
  53 significant bits, the least exponent of the last bit is \<open>-1074\<close>, and a result of
  \<open>2 ^ 1024\<close> or more is \<open>Infinity\<close>. \<open>l\<close> is the integer part of the binary logarithm of
  \<open>n / d\<close>.
\<close>

definition toDouble :: "int \<Rightarrow> int \<Rightarrow> jsNumber" where
  "toDouble n d =
     (if n = 0 then Num 0
      else
        let q = of_int n / of_int d;
            k = bitlen n - bitlen d;
            l = (if q < pow2 k then k - 1 else k);
            e = max (l - 52) (- 1074);
            v = of_int (roundHalfEven (q / pow2 e)) * pow2 e
        in if pow2 1024 \<le> v then Infinity else Num v)"

text \<open>
  \<open>x * 1024\<close> on doubles: a scaling by a power of two is exact unless it overflows.
\<close>

fun times1024 :: "jsNumber \<Rightarrow> jsNumber" where
  "times1024 NaN = NaN"
| "times1024 Infinity = Infinity"
| "times1024 (Num v) = (if pow2 1024 \<le> v * 1024 then Infinity else Num (v * 1024))"

definition isDigit :: "char \<Rightarrow> bool" where
  "isDigit c \<longleftrightarrow> c \<in> set ''0123456789''"

text \<open>The character class \<open>[\d.]\<close>.\<close>

definition isNumChar :: "char \<Rightarrow> bool" where
  "isNumChar c \<longleftrightarrow> isDigit c \<or> c = CHR ''.''"

text \<open>
  \<open>toUpperCase\<close> on the letters a to z. The platform maps the other characters to
  characters that are neither digits, dots, white space nor one of K, M, G, B; they are
  left as they are.
\<close>

definition upperChar :: "char \<Rightarrow> char" where
  "upperChar c =
     (case map_of (zip ''abcdefghijklmnopqrstuvwxyz'' ''ABCDEFGHIJKLMNOPQRSTUVWXYZ'') c of
        Some u \<Rightarrow> u
      | None \<Rightarrow> c)"

definition toUpperCase :: "string \<Rightarrow> string" where
  "toUpperCase s = map upperChar s"

text \<open>The value of a digit, and of a string of digits.\<close>

definition digitValue :: "char \<Rightarrow> int" where
  "digitValue c = of_char c - 48"

definition decimal :: "string \<Rightarrow> int" where
  "decimal ds = foldl (\<lambda>n c. 10 * n + digitValue c) 0 ds"

text \<open>
  \<open>parseFloat\<close> on a string of digits and dots: the longest prefix that is a decimal
  literal (digits, then optionally a dot and digits), \<open>NaN\<close> when that prefix holds no
  digit, else the double nearest to the decimal value.
\<close>

definition parseFloat :: "string \<Rightarrow> jsNumber" where
  "parseFloat s =
     (let intPart = takeWhile isDigit s;
          rest = dropWhile isDigit s;
          fracPart = (case rest of
                        [] \<Rightarrow> []
                      | c # r \<Rightarrow> if c = CHR ''.'' then takeWhile isDigit r else [])
      in if intPart = [] \<and> fracPart = [] then NaN
         else toDouble (decimal intPart * 10 ^ length fracPart + decimal fracPart)
                (10 ^ length fracPart))"

text \<open>
  \<open>normalized.match(/^([\d.]+)\s*(KB|MB|GB)?$/i)\<close>: the two groups, the second empty when
  the unit is missing.
\<close>

definition matchSize :: "string \<Rightarrow> (string \<times> string) option" where
  "matchSize normalized =
     (let num = takeWhile isNumChar normalized;
          unit = dropWhile isSpace (dropWhile isNumChar normalized)
      in if num \<noteq> [] \<and> unit \<in> {[], ''KB'', ''MB'', ''GB''} then Some (num, unit) else None)"

definition parseSizeToBytes :: "string \<Rightarrow> jsNumber" where
  "parseSizeToBytes sizeStr =
     (let normalized = toUpperCase (trim sizeStr)
      in case matchSize normalized of
           None \<Rightarrow> Num 0
         | Some (num, unit) \<Rightarrow>
             (let v = parseFloat num
              in if unit = ''GB'' then times1024 (times1024 (times1024 v))
                 else if unit = ''MB'' then times1024 (times1024 v)
                 else if unit = ''KB'' then times1024 v
                 else times1024 (times1024 v)))"

section \<open>useAiChat (the composing hook)\<close>

text \<open>
  \<open>removeModel\<close>: \<open>deleteAllConversations()\<close>, \<open>setMessages([])\<close>, then
  \<open>await removeModelFromDevice()\<close>. \<open>useModelSetup\<close>, which provides the last one, is not
  among the sources; its \<open>removeModel\<close> is taken from the single-hook \<open>useAiChat\<close>, where the
  same lifecycle function is present.
\<close>

definition removeModel ::
  "persistenceKeys \<Rightarrow> string option \<Rightarrow> unit outcome
    \<Rightarrow> conversationsHook \<times> messagesHook \<times> aiChat \<times> storage
    \<Rightarrow> conversationsHook \<times> messagesHook \<times> aiChat \<times> storage" where
  "removeModel K modelIdOpt removeResult s =
     (case s of (c, mh, a, st) \<Rightarrow>
        let (c1, st1) = deleteAllConversations K modelIdOpt c st;
            mh1 = setMessages [] mh;
            (a1, st2) = removeModelFromDevice removeResult a st1
        in (c1, mh1, a1, st2))"

section \<open>Example data\<close>

text \<open>A concrete key derivation and concrete records, to run the operations on.\<close>

definition exampleKeys :: persistenceKeys where
  "exampleKeys =
     \<lparr>getConversationListKey = (\<lambda>m. ''L:'' @ m),
      getMessagesKey = (\<lambda>c. ''M:'' @ c),
      getLastConversationKey = (\<lambda>m. ''A:'' @ m)\<rparr>"

definition msgHello :: message where
  "msgHello = \<lparr>id_msg = ''1-a'', text_msg = ''Hello'', isUser = True, timestamp = 1,
               includeInContext = Some True, remainTokens = Some 0\<rparr>"

definition msgReply :: message where
  "msgReply = \<lparr>id_msg = ''2-b'', text_msg = ''Hi there'', isUser = False, timestamp = 2,
               includeInContext = Some False, remainTokens = Some 0\<rparr>"

text \<open>A message written before the flag existed: it has no \<open>includeInContext\<close> field.\<close>

definition msgLegacy :: message where
  "msgLegacy = \<lparr>id_msg = ''0-z'', text_msg = ''old'', isUser = True, timestamp = 0,
                includeInContext = None, remainTokens = None\<rparr>"

definition hookIdle :: messagesHook where
  "hookIdle = \<lparr>messagesState = [], msgRef = [], conversationIdRef = Some ''c1'',
               prevConversationIdRef = None\<rparr>"

definition hookChat :: messagesHook where
  "hookChat = \<lparr>messagesState = [msgReply, msgHello], msgRef = [msgReply, msgHello],
               conversationIdRef = Some ''c1'', prevConversationIdRef = Some ''c1''\<rparr>"

definition storeWithChat :: storage where
  "storeWithChat = save ''M:c1'' (Messages [msgHello, msgReply]) Map.empty"

definition msgLong :: message where
  "msgLong = \<lparr>id_msg = ''3-c'', text_msg = replicate 120 CHR ''x'', isUser = False, timestamp = 3,
              includeInContext = None, remainTokens = None\<rparr>"

definition hookConvEmpty :: conversationsHook where
  "hookConvEmpty = \<lparr>conversations = [], activeConversationId = None, isMountedRef_conv = True,
                    conversationsRef = []\<rparr>"

text \<open>A store in the legacy layout: the messages of model \<open>m1\<close> under the bare model id.\<close>

definition storeLegacy :: storage where
  "storeLegacy = save ''m1'' (Messages [msgLegacy, msgLong]) Map.empty"

text \<open>The same, with an empty conversation list record already present for the model.\<close>

definition storeLegacyEmptyList :: storage where
  "storeLegacyEmptyList = save ''L:m1'' (Conversations []) storeLegacy"

definition exampleTime :: "string \<Rightarrow> int" where
  "exampleTime s =
     (if s = ''2025-01-01T00:00:00.000Z'' then 1735689600000
      else if s = ''2025-01-02T00:00:00.000Z'' then 1735776000000
      else if s = ''2025-01-03T00:00:00.000Z'' then 1735862400000
      else 0)"

definition convA :: conversationMeta where
  "convA = \<lparr>id_conv = ''cA'', modelId = ''m1'', title = Some ''A'', summary = None,
            createdAt = ''2025-01-01T00:00:00.000Z'', updatedAt = ''2025-01-01T00:00:00.000Z'',
            lastMessagePreview = None\<rparr>"

definition convB :: conversationMeta where
  "convB = \<lparr>id_conv = ''cB'', modelId = ''m1'', title = None, summary = None,
            createdAt = ''2025-01-01T00:00:00.000Z'', updatedAt = ''2025-01-03T00:00:00.000Z'',
            lastMessagePreview = Some ''Hi there''\<rparr>"

definition convC :: conversationMeta where
  "convC = \<lparr>id_conv = ''cC'', modelId = ''m1'', title = None, summary = None,
            createdAt = ''2025-01-02T00:00:00.000Z'', updatedAt = ''2025-01-02T00:00:00.000Z'',
            lastMessagePreview = None\<rparr>"

definition hookConvThree :: conversationsHook where
  "hookConvThree = \<lparr>conversations = [convA, convC, convB], activeConversationId = Some ''cA'',
                    isMountedRef_conv = True, conversationsRef = [convA, convC, convB]\<rparr>"

definition storeThree :: storage where
  "storeThree =
     save ''A:m1'' (Str ''cA'')
       (save ''L:m1'' (Conversations [convA, convC, convB])
         (save ''M:cA'' (Messages [msgHello, msgReply])
           (save ''M:cB'' (Messages [msgHello]) Map.empty)))"

definition chatFresh :: aiChat where
  "chatFresh =
     \<lparr>messages = [], inputText = [], modelStatus = not_setup, downloadProgress = 0,
      selectedModelId = None, useContextHistory = True, modelRef = None,
      isSetupInProgressRef = False, isMountedRef = True, streamAbortControllerRef = None,
      isLoading = False, abortedControllers = {}, scrollRequests = 0, calls = []\<rparr>"

definition chatReady :: aiChat where
  "chatReady = chatFresh\<lparr>modelStatus := ready, downloadProgress := 100,
                 selectedModelId := Some ''m1'', modelRef := Some ''m1''\<rparr>"

definition closureFresh :: setupClosure where
  "closureFresh = \<lparr>seenModelStatus = not_setup, seenSelectedModelId = None\<rparr>"

definition sessionFresh :: session where
  "sessionFresh = \<lparr>chat = chatFresh, store = Map.empty, inFlight = []\<rparr>"

text \<open>A session in the middle of a response: the placeholder has received one delta.\<close>

definition chatStreaming :: aiChat where
  "chatStreaming =
     chatReady\<lparr>messages := [createMessage ''10-u'' 10 ''Hello'' True,
                             createMessage ''11-a'' 11 ''Hi'' False],
               isLoading := True, streamAbortControllerRef := Some 1,
               calls := [StreamText (WithMessages [(User, ''Hello'')])]\<rparr>"

definition taskOne :: sendTask where
  "taskOne = \<lparr>aiMessageId = ''11-a'', abortController = 1, fullText = ''Hi'', started = True,
              lastScrollTime = 0\<rparr>"

section \<open>Results for useMessages\<close>

lemma withContextFlag_idem: "withContextFlag (withContextFlag m) = withContextFlag m"
  by (simp add: withContextFlag_def)


lemma flipOrder_flipOrder: "flipOrder (flipOrder ms) = map withContextFlag ms"
  by (simp add: flipOrder_def rev_map withContextFlag_idem comp_def)


text \<open>
  C9. The derived \<open>totalToken\<close> is the total number of characters of the texts of the
  messages whose \<open>includeInContext\<close> flag is true.
\<close>

theorem totalToken_counts_context_chars:
  "totalToken ms =
     sum_list (map (\<lambda>m. length (text_msg m)) (filter (\<lambda>m. includeInContext m = Some True) ms))"
  by (induction ms) (simp_all add: totalToken_def)


lemma load_save: "load (save k v st) k' = (if k' = k then Some v else load st k')"
  by (simp add: load_def save_def)

lemma load_remove: "load (remove k st) k' = (if k' = k then None else load st k')"
  by (simp add: load_def remove_def)

lemma saveMessages_writes:
  assumes "conversationIdRef h = Some cid" and "cid \<noteq> []" and "msgRef h \<noteq> []"
    and "\<forall>notify s. cb = Some notify \<longrightarrow>
           load (notify (msgRef h) s) (getMessagesKey K cid) = load s (getMessagesKey K cid)"
  shows "load (saveMessages K cb h st) (getMessagesKey K cid) = Some (Messages (flipOrder (msgRef h)))"
proof (cases cb)
  case None
  with assms(1-3) show ?thesis
    by (simp add: saveMessages_def Let_def load_save)
next
  case (Some notify)
  with assms(4) have "load (notify (msgRef h) s) (getMessagesKey K cid)
      = load s (getMessagesKey K cid)" for s
    by blast
  with Some assms(1-3) show ?thesis
    by (simp add: saveMessages_def Let_def load_save)
qed

lemma loadOnConversationChange_reads:
  assumes "inj (getMessagesKey K)" and "cid \<noteq> []"
    and "load st (getMessagesKey K cid) = Some (Messages ps)" and "ps \<noteq> []"
  shows "messagesState (fst (loadOnConversationChange K (Some cid) h st)) = flipOrder ps"
proof -
  let ?st1 = "if truthy (prevConversationIdRef h) \<and> prevConversationIdRef h \<noteq> Some cid
                 \<and> msgRef h \<noteq> []
              then save (getMessagesKey K (the (prevConversationIdRef h)))
                     (Messages (flipOrder (msgRef h))) st
              else st"
  have "load ?st1 (getMessagesKey K cid) = Some (Messages ps)"
  proof (cases "truthy (prevConversationIdRef h) \<and> prevConversationIdRef h \<noteq> Some cid
                  \<and> msgRef h \<noteq> []")
    case True
    then obtain p where p: "prevConversationIdRef h = Some p" "p \<noteq> cid"
      by (cases "prevConversationIdRef h") auto
    with assms(1) have "getMessagesKey K cid \<noteq> getMessagesKey K p"
      by (auto dest: injD)
    with True p assms(3) show ?thesis by (simp add: load_save)
  next
    case False
    with assms(3) show ?thesis by auto
  qed
  then have "loadMessages ?st1 (getMessagesKey K cid) = ps" by simp
  with assms(2,4) show ?thesis
    by (simp add: loadOnConversationChange_def Let_def setMessages_def)
qed

text \<open>
  C10. \<open>saveMessages\<close> does nothing when there is no active conversation id or the
  in-memory buffer is empty: the store is left as it was, so an empty buffer never
  overwrites a persisted message record.
\<close>

theorem saveMessages_guarded_noop:
  assumes "\<not> truthy (conversationIdRef h) \<or> msgRef h = []"
  shows "saveMessages K cb h st = st"
  using assms by (auto simp: saveMessages_def)

theorem saveMessages_guarded_noop_witness:
  "msgRef hookIdle = []
   \<and> saveMessages exampleKeys None hookIdle storeWithChat = storeWithChat
   \<and> load storeWithChat ''M:c1'' = Some (Messages [msgHello, msgReply])"
  using saveMessages_guarded_noop [of hookIdle exampleKeys None storeWithChat]
  by (simp add: hookIdle_def storeWithChat_def load_save)

text \<open>
  Every message that the hook puts into its in-memory list carries the flag: a new
  message has it, and a load sets it on every message it reads.
\<close>

lemma createMessage_useMessages_flag:
  "includeInContext (createMessage_useMessages newId now t u) \<noteq> None"
  by (simp add: createMessage_useMessages_def)

lemma flipOrder_flags: "\<forall>m \<in> set (flipOrder ms). includeInContext m \<noteq> None"
  by (auto simp: flipOrder_def withContextFlag_def)

lemma loadOnConversationChange_flags:
  "\<forall>m \<in> set (messagesState (fst (loadOnConversationChange K conversationId h st))).
     includeInContext m \<noteq> None"
  using flipOrder_flags
  by (simp add: loadOnConversationChange_def Let_def setMessages_def)

lemma prependMessages_flags:
  assumes "\<forall>m \<in> set newMessages. includeInContext m \<noteq> None"
    and "\<forall>m \<in> set (messagesState h). includeInContext m \<noteq> None"
  shows "\<forall>m \<in> set (messagesState (prependMessages newMessages h)). includeInContext m \<noteq> None"
  using assms by (auto simp: prependMessages_def setMessages_def)

text \<open>
  Whatever the in-memory list, the state that a load produces from what a save has
  written is the exact reverse of the persisted sequence.
\<close>

lemma load_after_save_reverses_persisted:
  assumes "inj (getMessagesKey K)" and "cid \<noteq> []"
    and "conversationIdRef h = Some cid" and "msgRef h \<noteq> []"
    and "\<forall>notify s. cb = Some notify \<longrightarrow>
           load (notify (msgRef h) s) (getMessagesKey K cid) = load s (getMessagesKey K cid)"
  shows "\<exists>ps. load (saveMessages K cb h st) (getMessagesKey K cid) = Some (Messages ps)
           \<and> messagesState (fst (loadOnConversationChange K (Some cid) h'
                (saveMessages K cb h st))) = rev ps"
proof -
  have w: "load (saveMessages K cb h st) (getMessagesKey K cid)
             = Some (Messages (flipOrder (msgRef h)))"
    using assms(3,2,4,5) by (rule saveMessages_writes)
  have ne: "flipOrder (msgRef h) \<noteq> []"
    using assms(4) by (simp add: flipOrder_def)
  have "messagesState (fst (loadOnConversationChange K (Some cid) h'
          (saveMessages K cb h st))) = flipOrder (flipOrder (msgRef h))"
    using assms(1,2) w ne by (rule loadOnConversationChange_reads)
  also have "\<dots> = rev (flipOrder (msgRef h))"
    by (simp add: flipOrder_flipOrder) (simp add: flipOrder_def)
  finally show ?thesis
    using w by blast
qed



section \<open>Results for useConversations\<close>

lemma load_empty: "load Map.empty k = None"
  by (simp add: load_def)

lemma hd_sortByUpdatedDesc:
  assumes "xs \<noteq> []"
  shows "hd (sortByUpdatedDesc g xs) \<in> set xs
       \<and> (\<forall>c \<in> set xs. g (updatedAt c) \<le> g (updatedAt (hd (sortByUpdatedDesc g xs))))"
proof -
  let ?f = "\<lambda>c. - g (updatedAt c)"
  let ?ys = "sort_key ?f xs"
  from assms have "length ?ys \<noteq> 0" by simp
  then obtain y ys where ys: "?ys = y # ys" by (cases ?ys) auto
  have "sorted (map ?f ?ys)" by (rule sorted_sort_key)
  with ys have le: "\<forall>c \<in> set ys. ?f y \<le> ?f c" by simp
  have "set ?ys = set xs" by simp
  with ys have s: "set xs = insert y (set ys)" by simp
  with le have "\<forall>c \<in> set xs. ?f y \<le> ?f c" by auto
  with s ys show ?thesis by (simp add: sortByUpdatedDesc_def)
qed

lemma migrateLegacyData_refuses:
  assumes "\<not> hasLength (load st m) \<or> hasLength (load st (getConversationListKey K m))"
  shows "migrateLegacyData K (Some m) cid now r h st = (False, h, st)"
  using assms by (auto simp: migrateLegacyData_def Let_def)

lemma migrateLegacyData_store:
  assumes "m \<noteq> []" and "hasLength (load st m)"
    and "\<not> hasLength (load st (getConversationListKey K m))"
  shows "fst (migrateLegacyData K (Some m) cid now r h st) = True"
    and "snd (snd (migrateLegacyData K (Some m) cid now r h st))
           = remove m
               (save (getLastConversationKey K m) (Str cid)
                 (save (getConversationListKey K m)
                    (Conversations [migratedMeta m cid now r (the (load st m))])
                   (save (getMessagesKey K cid) (the (load st m)) st)))"
  using assms by (simp_all add: migrateLegacyData_def Let_def)

text \<open>
  C1, as the claim states it, fails where an empty conversation list record exists for
  the model: the record is there, and the migration still runs and returns true.
\<close>

theorem migrateLegacyData_runs_over_empty_list_record:
  "load storeLegacyEmptyList (getConversationListKey exampleKeys ''m1'') = Some (Conversations [])
   \<and> fst (migrateLegacyData exampleKeys (Some ''m1'') ''c9'' ''2025-01-01T00:00:00.000Z''
        PromptRejected hookConvEmpty storeLegacyEmptyList) = True"
  by (simp add: migrateLegacyData_def Let_def storeLegacyEmptyList_def storeLegacy_def
      exampleKeys_def load_save)

text \<open>
  C1, amended. For a model id \<open>m\<close>, \<open>migrateLegacyData\<close> returns false and changes
  nothing when the record under the bare model id is absent or empty, or when a
  non-empty conversation list is stored for the model. Otherwise it returns true and,
  the keys involved being distinct, the store then holds the legacy value verbatim under
  the new conversation's message key, a conversation list with the single new entry, the
  last-active pointer to the new conversation, and no record under the legacy key; every
  later call for the same model returns false and changes nothing.
\<close>

theorem migrateLegacyData_once:
  assumes "m \<noteq> []"
    and "getMessagesKey K cid \<notin> {getConversationListKey K m, getLastConversationKey K m, m}"
    and "getConversationListKey K m \<notin> {getLastConversationKey K m, m}"
    and "getLastConversationKey K m \<noteq> m"
  shows "(\<not> hasLength (load st m) \<or> hasLength (load st (getConversationListKey K m)) \<longrightarrow>
            migrateLegacyData K (Some m) cid now r h st = (False, h, st))
       \<and> (hasLength (load st m) \<and> \<not> hasLength (load st (getConversationListKey K m)) \<longrightarrow>
            (let (migrated, h', st') = migrateLegacyData K (Some m) cid now r h st
             in migrated
                \<and> load st' (getMessagesKey K cid) = load st m
                \<and> (\<exists>meta. load st' (getConversationListKey K m) = Some (Conversations [meta])
                      \<and> id_conv meta = cid \<and> modelId meta = m)
                \<and> load st' (getLastConversationKey K m) = Some (Str cid)
                \<and> load st' m = None
                \<and> (\<forall>cid2 now2 r2 h2.
                      migrateLegacyData K (Some m) cid2 now2 r2 h2 st' = (False, h2, st'))))"
proof (intro conjI impI)
  assume "\<not> hasLength (load st m) \<or> hasLength (load st (getConversationListKey K m))"
  then show "migrateLegacyData K (Some m) cid now r h st = (False, h, st)"
    by (rule migrateLegacyData_refuses)
next
  assume a: "hasLength (load st m) \<and> \<not> hasLength (load st (getConversationListKey K m))"
  obtain migrated h' st' where res: "migrateLegacyData K (Some m) cid now r h st = (migrated, h', st')"
    by (cases "migrateLegacyData K (Some m) cid now r h st") auto
  from a obtain v where v: "load st m = Some v"
    by (cases "load st m") auto
  from res a assms(1) have ok: "migrated"
    using migrateLegacyData_store(1) [of m st K cid now r h] by simp
  from res a assms(1) have st': "st' = remove m
               (save (getLastConversationKey K m) (Str cid)
                 (save (getConversationListKey K m)
                    (Conversations [migratedMeta m cid now r (the (load st m))])
                   (save (getMessagesKey K cid) (the (load st m)) st)))"
    using migrateLegacyData_store(2) [of m st K cid now r h] by simp
  have l1: "load st' (getMessagesKey K cid) = load st m"
    using assms(2) v by (simp add: st' load_remove load_save)
  have l2: "load st' (getConversationListKey K m)
              = Some (Conversations [migratedMeta m cid now r (the (load st m))])"
    using assms(3) by (simp add: st' load_remove load_save)
  have l3: "load st' (getLastConversationKey K m) = Some (Str cid)"
    using assms(4) by (simp add: st' load_remove load_save)
  have l4: "load st' m = None"
    by (simp add: st' load_remove)
  have l5: "migrateLegacyData K (Some m) cid2 now2 r2 h2 st' = (False, h2, st')"
    for cid2 now2 r2 h2
    using l4 by (simp add: migrateLegacyData_refuses)
  have "id_conv (migratedMeta m cid now r (the (load st m))) = cid"
    and "modelId (migratedMeta m cid now r (the (load st m))) = m"
    by (simp_all add: migratedMeta_def)
  with l2 have l2': "\<exists>meta. load st' (getConversationListKey K m) = Some (Conversations [meta])
                      \<and> id_conv meta = cid \<and> modelId meta = m"
    by blast
  from ok l1 l2' l3 l4 l5
  show "let (migrated, h', st') = migrateLegacyData K (Some m) cid now r h st
        in migrated
           \<and> load st' (getMessagesKey K cid) = load st m
           \<and> (\<exists>meta. load st' (getConversationListKey K m) = Some (Conversations [meta])
                 \<and> id_conv meta = cid \<and> modelId meta = m)
           \<and> load st' (getLastConversationKey K m) = Some (Str cid)
           \<and> load st' m = None
           \<and> (\<forall>cid2 now2 r2 h2.
                 migrateLegacyData K (Some m) cid2 now2 r2 h2 st' = (False, h2, st'))"
    by (simp add: res)
qed

theorem migrateLegacyData_once_witness:
  "(let (migrated, h', st') = migrateLegacyData exampleKeys (Some ''m1'') ''c9''
        ''2025-01-01T00:00:00.000Z'' PromptRejected hookConvEmpty storeLegacy
    in migrated
       \<and> load st' ''M:c9'' = Some (Messages [msgLegacy, msgLong])
       \<and> load st' ''A:m1'' = Some (Str ''c9'')
       \<and> load st' ''m1'' = None
       \<and> migrateLegacyData exampleKeys (Some ''m1'') ''c10'' ''2025-01-02T00:00:00.000Z''
            (PromptResolved ''Title'') h' st' = (False, h', st'))"
proof -
  have k: "getMessagesKey exampleKeys ''c9'' = ''M:c9''"
    "getConversationListKey exampleKeys ''m1'' = ''L:m1''"
    "getLastConversationKey exampleKeys ''m1'' = ''A:m1''"
    by (simp_all add: exampleKeys_def)
  have p1: "''m1'' \<noteq> []" by simp
  have p2: "getMessagesKey exampleKeys ''c9'' \<notin>
      {getConversationListKey exampleKeys ''m1'', getLastConversationKey exampleKeys ''m1'', ''m1''}"
    by (simp add: k)
  have p3: "getConversationListKey exampleKeys ''m1'' \<notin>
      {getLastConversationKey exampleKeys ''m1'', ''m1''}"
    by (simp add: k)
  have p4: "getLastConversationKey exampleKeys ''m1'' \<noteq> ''m1''"
    by (simp add: k)
  have a: "hasLength (load storeLegacy ''m1'')
      \<and> \<not> hasLength (load storeLegacy (getConversationListKey exampleKeys ''m1''))"
    by (simp add: k storeLegacy_def load_save load_empty)
  have v: "load storeLegacy ''m1'' = Some (Messages [msgLegacy, msgLong])"
    by (simp add: storeLegacy_def load_save)
  note T = migrateLegacyData_once [OF p1 p2 p3 p4, where st = storeLegacy
      and now = "''2025-01-01T00:00:00.000Z''" and r = PromptRejected and h = hookConvEmpty]
  from T a have "let (migrated, h', st') = migrateLegacyData exampleKeys (Some ''m1'') ''c9''
        ''2025-01-01T00:00:00.000Z'' PromptRejected hookConvEmpty storeLegacy
    in migrated
       \<and> load st' (getMessagesKey exampleKeys ''c9'') = load storeLegacy ''m1''
       \<and> (\<exists>meta. load st' (getConversationListKey exampleKeys ''m1'') = Some (Conversations [meta])
             \<and> id_conv meta = ''c9'' \<and> modelId meta = ''m1'')
       \<and> load st' (getLastConversationKey exampleKeys ''m1'') = Some (Str ''c9'')
       \<and> load st' ''m1'' = None
       \<and> (\<forall>cid2 now2 r2 h2.
             migrateLegacyData exampleKeys (Some ''m1'') cid2 now2 r2 h2 st' = (False, h2, st'))"
    by blast
  then show ?thesis
    by (auto simp: k v split: prod.splits)
qed

text \<open>
  C3. \<open>deleteConversation\<close>, for a model id and distinct keys, removes the conversation's
  message record and its list entry (in memory and in the stored list). If the deleted
  conversation was the active one and survivors remain, the new active conversation is a
  survivor whose \<open>updatedAt\<close> is the latest among the survivors, and the last-active
  pointer is set to it; if none remain, the active id is null and the last-active record
  is removed; if another conversation was active, the active id is unchanged.
\<close>

theorem deleteConversation_resolves_active:
  assumes "m \<noteq> []"
    and "getMessagesKey K cid \<notin> {getConversationListKey K m, getLastConversationKey K m}"
    and "getConversationListKey K m \<noteq> getLastConversationKey K m"
  shows "(let survivors = filter (\<lambda>c. id_conv c \<noteq> cid) (conversationsRef h);
              (h', st') = deleteConversation K getTime (Some m) cid h st
          in load st' (getMessagesKey K cid) = None
             \<and> conversations h' = survivors
             \<and> load st' (getConversationListKey K m) = Some (Conversations survivors)
             \<and> cid \<notin> id_conv ` set survivors
             \<and> (activeConversationId h = Some cid \<and> survivors \<noteq> [] \<longrightarrow>
                  (\<exists>c \<in> set survivors.
                     activeConversationId h' = Some (id_conv c)
                     \<and> load st' (getLastConversationKey K m) = Some (Str (id_conv c))
                     \<and> (\<forall>d \<in> set survivors. getTime (updatedAt d) \<le> getTime (updatedAt c))))
             \<and> (activeConversationId h = Some cid \<and> survivors = [] \<longrightarrow>
                  activeConversationId h' = None
                  \<and> load st' (getLastConversationKey K m) = None)
             \<and> (activeConversationId h \<noteq> Some cid \<longrightarrow>
                  activeConversationId h' = activeConversationId h
                  \<and> load st' (getLastConversationKey K m) = load st (getLastConversationKey K m)))"
proof -
  let ?S = "filter (\<lambda>c. id_conv c \<noteq> cid) (conversationsRef h)"
  let ?top = "hd (sortByUpdatedDesc getTime ?S)"
  have notin: "cid \<notin> id_conv ` set ?S" by auto
  from assms(2,3) have ne: "getLastConversationKey K m \<noteq> getMessagesKey K cid"
    "getConversationListKey K m \<noteq> getMessagesKey K cid"
    "getLastConversationKey K m \<noteq> getConversationListKey K m"
    by auto
  show ?thesis
  proof (cases "activeConversationId h = Some cid")
    case False
    with assms notin ne show ?thesis
      by (simp add: deleteConversation_def Let_def load_save load_remove)
  next
    case True
    show ?thesis
    proof (cases "?S = []")
      case True
      with \<open>activeConversationId h = Some cid\<close> assms ne show ?thesis
        by (simp add: deleteConversation_def Let_def load_save load_remove)
    next
      case False
      then have top: "?top \<in> set ?S"
        and mx: "\<forall>d \<in> set ?S. getTime (updatedAt d) \<le> getTime (updatedAt ?top)"
        using hd_sortByUpdatedDesc [of ?S getTime] by blast+
      have "\<exists>c \<in> set ?S. id_conv ?top = id_conv c
              \<and> (\<forall>d \<in> set ?S. getTime (updatedAt d) \<le> getTime (updatedAt c))"
        using top mx by blast
      with False \<open>activeConversationId h = Some cid\<close> assms notin ne show ?thesis
        by (simp add: deleteConversation_def Let_def load_save load_remove)
    qed
  qed
qed

theorem deleteConversation_resolves_active_witness:
  "(let (h', st') = deleteConversation exampleKeys exampleTime (Some ''m1'') ''cA''
        hookConvThree storeThree
    in load st' ''M:cA'' = None
       \<and> conversations h' = [convC, convB]
       \<and> load st' ''L:m1'' = Some (Conversations [convC, convB])
       \<and> activeConversationId h' = Some ''cB''
       \<and> load st' ''A:m1'' = Some (Str ''cB''))"
proof -
  have k: "getMessagesKey exampleKeys ''cA'' = ''M:cA''"
    "getConversationListKey exampleKeys ''m1'' = ''L:m1''"
    "getLastConversationKey exampleKeys ''m1'' = ''A:m1''"
    by (simp_all add: exampleKeys_def)
  have p1: "''m1'' \<noteq> []" by simp
  have p2: "getMessagesKey exampleKeys ''cA'' \<notin>
      {getConversationListKey exampleKeys ''m1'', getLastConversationKey exampleKeys ''m1''}"
    by (simp add: k)
  have p3: "getConversationListKey exampleKeys ''m1'' \<noteq> getLastConversationKey exampleKeys ''m1''"
    by (simp add: k)
  have s: "filter (\<lambda>c. id_conv c \<noteq> ''cA'') (conversationsRef hookConvThree) = [convC, convB]"
    by (simp add: hookConvThree_def convA_def convB_def convC_def)
  have a: "activeConversationId hookConvThree = Some ''cA''"
    by (simp add: hookConvThree_def)
  have t: "exampleTime (updatedAt convC) < exampleTime (updatedAt convB)"
    by (simp add: exampleTime_def convB_def convC_def)
  have i: "id_conv convB = ''cB''" "id_conv convC = ''cC''"
    by (simp_all add: convB_def convC_def)
  note T = deleteConversation_resolves_active [OF p1 p2 p3, where h = hookConvThree
      and st = storeThree and getTime = exampleTime]
  obtain h' st' where res: "deleteConversation exampleKeys exampleTime (Some ''m1'') ''cA''
        hookConvThree storeThree = (h', st')"
    by (cases "deleteConversation exampleKeys exampleTime (Some ''m1'') ''cA''
        hookConvThree storeThree") auto
  from T have T': "load st' ''M:cA'' = None
       \<and> conversations h' = [convC, convB]
       \<and> load st' ''L:m1'' = Some (Conversations [convC, convB])
       \<and> (\<exists>c \<in> set [convC, convB].
             activeConversationId h' = Some (id_conv c)
             \<and> load st' ''A:m1'' = Some (Str (id_conv c))
             \<and> (\<forall>d \<in> set [convC, convB]. exampleTime (updatedAt d) \<le> exampleTime (updatedAt c)))"
    by (simp add: Let_def res s a k)
  then have "activeConversationId h' = Some ''cB'' \<and> load st' ''A:m1'' = Some (Str ''cB'')"
    using t i by auto
  with T' show ?thesis
    by (simp add: res)
qed



text \<open>
  Outside \<open>deleteConversation\<close> itself: when the deleted conversation was the one on
  screen, the cleanup of the messages hook's effect runs next, for the deleted id, and
  writes a non-empty buffer back under the deleted conversation's message key.
\<close>

lemma cleanup_after_delete_rewrites_record:
  assumes "cid \<noteq> []" and "msgRef mh \<noteq> []"
  shows "load (snd (cleanupOnConversationChange K (Some cid) mh st)) (getMessagesKey K cid)
           = Some (Messages (flipOrder (msgRef mh)))"
  using assms by (simp add: cleanupOnConversationChange_def load_save)

section \<open>Results for the model lifecycle\<close>

lemma checkModelExists_present:
  assumes "truthy (Some m)"
  shows "checkModelExists (Some m) (Resolved True) (Resolved ()) a st
           = (True,
              a\<lparr>calls := calls a @ [IsDownloaded m, Prepare m], modelRef := Some m,
                 selectedModelId := Some m, modelStatus := ready\<rparr>,
              save STORAGE_KEY_SELECTED_MODEL (Str m) st)"
  using assms by (simp add: checkModelExists_def invoke_def Let_def)

lemma checkModelExists_absent_or_unknown:
  assumes "r = Rejected \<or> r = Resolved False"
  shows "fst (checkModelExists i r p a st) = False
       \<and> modelStatus (fst (snd (checkModelExists i r p a st))) = modelStatus a
       \<and> snd (snd (checkModelExists i r p a st)) = st"
  using assms by (auto simp: checkModelExists_def invoke_def Let_def)

text \<open>
  C5. When \<open>isDownloaded()\<close> answers true and \<open>prepare()\<close> rejects, \<open>checkModelExists\<close>
  returns false and the lifecycle state, \<open>not_setup\<close> before the call, is left at
  \<open>preparing\<close>.
\<close>

theorem checkModelExists_prepare_rejected_leaves_preparing:
  "modelStatus chatFresh = not_setup
   \<and> checkModelExists (Some ''m1'') (Resolved True) Rejected chatFresh Map.empty
       = (False,
          chatFresh\<lparr>modelStatus := preparing, calls := [IsDownloaded ''m1'', Prepare ''m1'']\<rparr>,
          Map.empty)"
  by (simp add: checkModelExists_def invoke_def chatFresh_def Let_def)

lemma load_foldl_remove:
  "load (foldl (\<lambda>s c. remove (k c) s) st xs) key
     = (if key \<in> k ` set xs then None else load st key)"
  by (induction xs arbitrary: st) (auto simp: load_remove)

text \<open>
  C8. \<open>removeModel\<close>, run for the selected model \<open>m\<close>, leaves no message record of any of
  the model's conversations, no conversation list record and no last-active pointer
  record in the store; the in-memory message list and the conversation list are empty;
  the lifecycle's removal has run: the remove capability was invoked for \<open>m\<close>, and when
  it succeeds the lifecycle is back at \<open>not_setup\<close> with no selected model and no
  persisted selection. The effect of the messages hook that follows the change of the
  active conversation (cleanup, then body) writes nothing back.
\<close>

theorem removeModel_cascades:
  assumes "m \<noteq> []" and "selectedModelId a = Some m"
  shows "(let (c', mh', a', st') = removeModel K (Some m) r (c, mh, a, st)
          in (\<forall>x \<in> set (conversationsRef c). load st' (getMessagesKey K (id_conv x)) = None)
             \<and> load st' (getConversationListKey K m) = None
             \<and> load st' (getLastConversationKey K m) = None
             \<and> conversations c' = [] \<and> conversationsRef c' = []
             \<and> activeConversationId c' = None
             \<and> messagesState mh' = [] \<and> msgRef mh' = []
             \<and> (a', st') = removeModelFromDevice r a (snd (deleteAllConversations K (Some m) c st))
             \<and> RemoveModel m \<in> set (calls a')
             \<and> modelRef a' = None
             \<and> (r = Resolved () \<longrightarrow>
                  modelStatus a' = not_setup \<and> selectedModelId a' = None
                  \<and> load st' STORAGE_KEY_SELECTED_MODEL = None)
             \<and> snd (cleanupOnConversationChange K prev mh' st') = st'
             \<and> snd (loadOnConversationChange K None
                      (fst (cleanupOnConversationChange K prev mh' st')) st') = st')"
proof -
  obtain c1 st1 where d: "deleteAllConversations K (Some m) c st = (c1, st1)"
    by (cases "deleteAllConversations K (Some m) c st") auto
  from d assms(1) have c1: "c1 = c\<lparr>conversationsRef := [], conversations := [],
      activeConversationId := None\<rparr>"
    by (simp add: deleteAllConversations_def Let_def)
  from d assms(1) have st1: "st1 = remove (getLastConversationKey K m)
      (remove (getConversationListKey K m)
        (foldl (\<lambda>s x. remove (getMessagesKey K (id_conv x)) s) st (conversationsRef c)))"
    by (simp add: deleteAllConversations_def Let_def)
  have g1: "\<forall>x \<in> set (conversationsRef c). load st1 (getMessagesKey K (id_conv x)) = None"
    by (simp add: st1 load_remove load_foldl_remove)
  have g2: "load st1 (getConversationListKey K m) = None"
    by (simp add: st1 load_remove)
  have g3: "load st1 (getLastConversationKey K m) = None"
    by (simp add: st1 load_remove)
  obtain a' st' where rm: "removeModelFromDevice r a st1 = (a', st')"
    by (cases "removeModelFromDevice r a st1") auto
  have keep: "load st' key = None" if "load st1 key = None" for key
    using rm that assms
    by (cases r) (auto simp: removeModelFromDevice_def Let_def load_remove split: option.splits)
  have l: "RemoveModel m \<in> set (calls a') \<and> modelRef a' = None
      \<and> (r = Resolved () \<longrightarrow> modelStatus a' = not_setup \<and> selectedModelId a' = None
            \<and> load st' STORAGE_KEY_SELECTED_MODEL = None)"
    using rm assms
    by (cases r) (auto simp: removeModelFromDevice_def Let_def invoke_def load_remove
        split: option.splits)
  have "removeModel K (Some m) r (c, mh, a, st) = (c1, setMessages [] mh, a', st')"
    using d rm by (simp add: removeModel_def)
  moreover have "snd (cleanupOnConversationChange K prev (setMessages [] mh) st') = st'"
    and "snd (loadOnConversationChange K None
          (fst (cleanupOnConversationChange K prev (setMessages [] mh) st')) st') = st'"
    by (simp_all add: cleanupOnConversationChange_def loadOnConversationChange_def
        setMessages_def Let_def)
  ultimately show ?thesis
    using g1 g2 g3 keep l rm d by (simp add: setMessages_def c1)
qed


theorem removeModel_cascades_witness:
  "(let (c', mh', a', st') = removeModel exampleKeys (Some ''m1'') (Resolved ())
        (hookConvThree, hookChat, chatReady, storeThree)
    in load st' ''M:cA'' = None \<and> load st' ''M:cB'' = None \<and> load st' ''M:cC'' = None
       \<and> load st' ''L:m1'' = None \<and> load st' ''A:m1'' = None
       \<and> messagesState mh' = [] \<and> msgRef mh' = []
       \<and> RemoveModel ''m1'' \<in> set (calls a')
       \<and> modelStatus a' = not_setup \<and> selectedModelId a' = None)"
proof -
  have p1: "''m1'' \<noteq> []" by simp
  have p2: "selectedModelId chatReady = Some ''m1''"
    by (simp add: chatReady_def)
  have k: "getMessagesKey exampleKeys (id_conv convA) = ''M:cA''"
    "getMessagesKey exampleKeys (id_conv convB) = ''M:cB''"
    "getMessagesKey exampleKeys (id_conv convC) = ''M:cC''"
    "getConversationListKey exampleKeys ''m1'' = ''L:m1''"
    "getLastConversationKey exampleKeys ''m1'' = ''A:m1''"
    by (simp_all add: exampleKeys_def convA_def convB_def convC_def)
  have r: "conversationsRef hookConvThree = [convA, convC, convB]"
    by (simp add: hookConvThree_def)
  note T = removeModel_cascades [OF p1 p2, where K = exampleKeys and r = "Resolved ()"
      and c = hookConvThree and mh = hookChat and st = storeThree]
  obtain c' mh' a' st' where res: "removeModel exampleKeys (Some ''m1'') (Resolved ())
        (hookConvThree, hookChat, chatReady, storeThree) = (c', mh', a', st')"
    by (cases "removeModel exampleKeys (Some ''m1'') (Resolved ())
        (hookConvThree, hookChat, chatReady, storeThree)") auto
  from T have "load st' ''M:cA'' = None \<and> load st' ''M:cB'' = None \<and> load st' ''M:cC'' = None
       \<and> load st' ''L:m1'' = None \<and> load st' ''A:m1'' = None
       \<and> messagesState mh' = [] \<and> msgRef mh' = []
       \<and> RemoveModel ''m1'' \<in> set (calls a')
       \<and> modelStatus a' = not_setup \<and> selectedModelId a' = None"
    unfolding res by (simp add: r k)
  then show ?thesis
    by (simp add: res)
qed

text \<open>Every segment of \<open>setupModel\<close> keeps the flag in step with its suspension.\<close>

lemma startDownload_flag:
  assumes "startDownload newId a = (a', t)" and "isSetupInProgressRef a"
  shows "isSetupInProgressRef a' = (t \<noteq> None)"
  using assms by (auto simp: startDownload_def finishSetup_def invoke_def split: if_splits)

lemma afterOldModel_flag:
  assumes "afterOldModel newId a = (a', t)" and "isSetupInProgressRef a"
  shows "isSetupInProgressRef a' = (t \<noteq> None)"
  using assms by (auto simp: afterOldModel_def dest!: startDownload_flag split: if_splits)

lemma setupModel_ignored:
  assumes "isSetupInProgressRef a"
  shows "setupModel cl newId a = (a, None)"
  using assms by (simp add: setupModel_def)

lemma setupModel_flag:
  assumes "setupModel cl newId a = (a', t)" and "\<not> isSetupInProgressRef a"
  shows "isSetupInProgressRef a' = (t \<noteq> None)"
proof (cases "Some newId = seenSelectedModelId cl \<and> seenModelStatus cl = ready")
  case True
  with assms show ?thesis by (auto simp: setupModel_def)
next
  case False
  show ?thesis
  proof (cases "Some newId \<noteq> seenSelectedModelId cl \<and> truthy (seenSelectedModelId cl)")
    case True
    with False assms show ?thesis
      by (auto simp: setupModel_def Let_def invoke_def split: option.splits)
  next
    case swap: False
    with False assms have "startDownload newId (a\<lparr>isSetupInProgressRef := True\<rparr>) = (a', t)"
      by (auto simp: setupModel_def Let_def)
    then show ?thesis
      by (rule startDownload_flag) simp
  qed
qed

lemma resumeSetup_flag:
  assumes "resumeSetup t ev a st = ((a', st'), t')" and "isSetupInProgressRef a"
  shows "isSetupInProgressRef a' = (t' \<noteq> None)"
  using assms
  by (induction t ev a st rule: resumeSetup.induct)
    (auto simp: finishSetup_def failSetup_def invoke_def dest!: afterOldModel_flag
      split: if_splits option.splits prod.splits)

lemma unmount_flag: "isSetupInProgressRef (unmount a) = isSetupInProgressRef a"
  by (simp add: unmount_def Let_def invoke_def split: option.splits)

lemma step_singleFlight:
  assumes "singleFlight s"
  shows "singleFlight (step s e)"
proof (cases e)
  case (CallSetup cl newId)
  obtain a' t where r: "setupModel cl newId (chat s) = (a', t)"
    by (cases "setupModel cl newId (chat s)") auto
  show ?thesis
  proof (cases "isSetupInProgressRef (chat s)")
    case True
    with r have "a' = chat s" "t = None"
      by (simp_all add: setupModel_ignored)
    with CallSetup r assms show ?thesis
      by (simp add: singleFlight_def)
  next
    case False
    with assms have e: "inFlight s = []"
      by (simp add: singleFlight_def)
    from r False have "isSetupInProgressRef a' = (t \<noteq> None)"
      by (rule setupModel_flag)
    with CallSetup r e show ?thesis
      by (cases t) (simp_all add: singleFlight_def)
  qed
next
  case (Deliver i ev)
  show ?thesis
  proof (cases "i < length (inFlight s)")
    case False
    with Deliver assms show ?thesis by simp
  next
    case True
    with assms have i: "i = 0" and l: "length (inFlight s) = 1"
      and f: "isSetupInProgressRef (chat s)"
      by (auto simp: singleFlight_def)
    obtain a' st' t' where r: "resumeSetup (inFlight s ! i) ev (chat s) (store s) = ((a', st'), t')"
      by (cases "resumeSetup (inFlight s ! i) ev (chat s) (store s)") auto
    from r f have "isSetupInProgressRef a' = (t' \<noteq> None)"
      by (rule resumeSetup_flag)
    with Deliver True r i l show ?thesis
      by (cases t') (auto simp: singleFlight_def)
  qed
next
  case Unmount
  with assms show ?thesis
    by (simp add: singleFlight_def unmount_flag)
qed

lemma run_singleFlight:
  assumes "singleFlight s"
  shows "singleFlight (run s evs)"
  using assms unfolding run_def
  by (induction evs arbitrary: s) (simp_all add: step_singleFlight del: step.simps)

text \<open>
  C4. While the setup flag is set, a call of \<open>setupModel\<close> returns at once and changes
  nothing. From a session with no setup in flight, after any sequence of calls, settled
  promises, progress events and unmounts, at most one setup is suspended, and a call made
  while one is suspended leaves the whole session as it was (nothing is queued, no
  capability is invoked). In particular two calls in succession, the first of which starts
  a setup, leave the session as the first call alone does, so every later event finds one
  download and prepare sequence.
\<close>

theorem setupModel_single_flight:
  "(isSetupInProgressRef a \<longrightarrow> setupModel cl newId a = (a, None))
   \<and> (inFlight s = [] \<and> \<not> isSetupInProgressRef (chat s) \<longrightarrow>
        length (inFlight (run s evs)) \<le> 1
        \<and> (inFlight (run s evs) \<noteq> [] \<longrightarrow>
             step (run s evs) (CallSetup cl newId) = run s evs)
        \<and> (inFlight (step s (CallSetup cl1 m1)) \<noteq> [] \<longrightarrow>
             run s (CallSetup cl1 m1 # CallSetup cl newId # evs)
               = run s (CallSetup cl1 m1 # evs)))"
proof (intro conjI impI)
  assume "isSetupInProgressRef a"
  then show "setupModel cl newId a = (a, None)"
    by (rule setupModel_ignored)
next
  assume a: "inFlight s = [] \<and> \<not> isSetupInProgressRef (chat s)"
  then have inv0: "singleFlight s"
    by (simp add: singleFlight_def)
  then have inv: "singleFlight (run s evs)"
    by (rule run_singleFlight)
  then show "length (inFlight (run s evs)) \<le> 1"
    by (simp add: singleFlight_def)
  have ign: "step s' (CallSetup cl newId) = s'" if "singleFlight s'" "inFlight s' \<noteq> []" for s'
    using that by (simp add: singleFlight_def setupModel_ignored)
  {
    assume "inFlight (run s evs) \<noteq> []"
    with inv show "step (run s evs) (CallSetup cl newId) = run s evs"
      by (rule ign)
  }
  {
    assume n: "inFlight (step s (CallSetup cl1 m1)) \<noteq> []"
    from inv0 have "singleFlight (step s (CallSetup cl1 m1))"
      by (rule step_singleFlight)
    then have "step (step s (CallSetup cl1 m1)) (CallSetup cl newId) = step s (CallSetup cl1 m1)"
      using n by (rule ign)
    then show "run s (CallSetup cl1 m1 # CallSetup cl newId # evs)
        = run s (CallSetup cl1 m1 # evs)"
      by (simp add: run_def del: step.simps)
  }
qed


theorem setupModel_single_flight_witness:
  "isSetupInProgressRef (chat (step sessionFresh (CallSetup closureFresh ''m1'')))
   \<and> setupModel closureFresh ''m2'' (chat (step sessionFresh (CallSetup closureFresh ''m1'')))
       = (chat (step sessionFresh (CallSetup closureFresh ''m1'')), None)
   \<and> run sessionFresh [CallSetup closureFresh ''m1'', CallSetup closureFresh ''m2'',
         Deliver 0 (Settled (Resolved ())), Deliver 0 (Settled (Resolved ()))]
       = run sessionFresh [CallSetup closureFresh ''m1'',
           Deliver 0 (Settled (Resolved ())), Deliver 0 (Settled (Resolved ()))]
   \<and> calls (chat (run sessionFresh [CallSetup closureFresh ''m1'',
         Deliver 0 (Settled (Resolved ())), Deliver 0 (Settled (Resolved ()))]))
       = [Download ''m1'', Prepare ''m1'']"
proof -
  let ?s1 = "step sessionFresh (CallSetup closureFresh ''m1'')"
  have s1: "?s1 = \<lparr>chat = chatFresh\<lparr>isSetupInProgressRef := True, modelStatus := downloading,
                             calls := [Download ''m1'']\<rparr>,
                   store = Map.empty, inFlight = [AwaitDownload ''m1'']\<rparr>"
    by (simp add: sessionFresh_def closureFresh_def chatFresh_def setupModel_def
        startDownload_def invoke_def)
  have f: "isSetupInProgressRef (chat ?s1)"
    unfolding s1 by simp
  have n: "inFlight ?s1 \<noteq> []"
    unfolding s1 by simp
  have i: "inFlight sessionFresh = [] \<and> \<not> isSetupInProgressRef (chat sessionFresh)"
    by (simp add: sessionFresh_def chatFresh_def)
  note T = setupModel_single_flight [where a = "chat ?s1" and cl = closureFresh
      and newId = "''m2''" and s = sessionFresh and ?cl1.0 = closureFresh and ?m1.0 = "''m1''"
      and evs = "[Deliver 0 (Settled (Resolved ())), Deliver 0 (Settled (Resolved ()))]"]
  from T f have a: "setupModel closureFresh ''m2'' (chat ?s1) = (chat ?s1, None)"
    by blast
  from T i n have b: "run sessionFresh [CallSetup closureFresh ''m1'', CallSetup closureFresh ''m2'',
         Deliver 0 (Settled (Resolved ())), Deliver 0 (Settled (Resolved ()))]
       = run sessionFresh [CallSetup closureFresh ''m1'',
           Deliver 0 (Settled (Resolved ())), Deliver 0 (Settled (Resolved ()))]"
    by blast
  have c: "calls (chat (run sessionFresh [CallSetup closureFresh ''m1'',
         Deliver 0 (Settled (Resolved ())), Deliver 0 (Settled (Resolved ()))]))
       = [Download ''m1'', Prepare ''m1'']"
    by (simp add: run_def s1 chatFresh_def invoke_def finishSetup_def del: step.simps(1))
  from f a b c show ?thesis
    by blast
qed

section \<open>Results for parseSizeToBytes\<close>

lemma isSpace_not_numChar: "isNumChar c \<Longrightarrow> \<not> isSpace c"
  by (auto simp: isNumChar_def isDigit_def isSpace_def)

lemma letters_not_numChar:
  "c \<in> set ''abcdefghijklmnopqrstuvwxyz'' \<union> set ''ABCDEFGHIJKLMNOPQRSTUVWXYZ'' \<Longrightarrow> \<not> isNumChar c"
  by (auto simp: isNumChar_def isDigit_def)

lemma upperChar_cases:
  "upperChar c = c
   \<or> (c \<in> set ''abcdefghijklmnopqrstuvwxyz'' \<and> upperChar c \<in> set ''ABCDEFGHIJKLMNOPQRSTUVWXYZ'')"
proof (cases "map_of (zip ''abcdefghijklmnopqrstuvwxyz'' ''ABCDEFGHIJKLMNOPQRSTUVWXYZ'') c")
  case None
  then show ?thesis
    by (simp only: upperChar_def option.case) blast
next
  case (Some u)
  then have "(c, u) \<in> set (zip ''abcdefghijklmnopqrstuvwxyz'' ''ABCDEFGHIJKLMNOPQRSTUVWXYZ'')"
    by (rule map_of_SomeD)
  then have "c \<in> set ''abcdefghijklmnopqrstuvwxyz''" and "u \<in> set ''ABCDEFGHIJKLMNOPQRSTUVWXYZ''"
    by (rule set_zip_leftD, rule set_zip_rightD)
  with Some show ?thesis
    by (simp only: upperChar_def option.case) blast
qed

lemma upperChar_numChar: "isNumChar (upperChar c) \<longleftrightarrow> isNumChar c"
  using upperChar_cases [of c] letters_not_numChar [of c] letters_not_numChar [of "upperChar c"]
  by (metis UnCI)

lemma upperChar_numChar_id: "isNumChar c \<Longrightarrow> upperChar c = c"
  using upperChar_cases [of c] letters_not_numChar [of c] by blast

lemma trim_no_space:
  assumes "\<forall>c \<in> set s. \<not> isSpace c"
  shows "trim s = s"
proof (cases s)
  case Nil
  then show ?thesis by (simp add: trim_def)
next
  case (Cons x xs)
  from Cons have ne: "s \<noteq> []" by simp
  then have "hd s \<in> set s" and "last s \<in> set s"
    by simp_all
  with assms have "\<not> isSpace (hd s)" and "\<not> isSpace (last s)"
    by blast+
  moreover from ne have "rev s \<noteq> []" by simp
  ultimately have "dropWhile isSpace s = s" and "dropWhile isSpace (rev s) = rev s"
    by (simp_all add: dropWhile_eq_self_iff hd_rev)
  then show ?thesis
    by (simp add: trim_def)
qed

lemma toUpperCase_numChars:
  "\<forall>c \<in> set s. isNumChar c \<Longrightarrow> toUpperCase s = s"
  by (simp add: toUpperCase_def upperChar_numChar_id map_idI)

text \<open>Where the pattern does not match, the result is 0.\<close>

lemma parseSizeToBytes_no_match:
  assumes "matchSize (toUpperCase (trim s)) = None"
  shows "parseSizeToBytes s = Num 0"
  using assms by (simp add: parseSizeToBytes_def)

lemma parseSizeToBytes_not_a_number:
  assumes "trim s = [] \<or> \<not> isNumChar (hd (trim s))"
  shows "parseSizeToBytes s = Num 0"
proof -
  have "toUpperCase (trim s) = [] \<or> \<not> isNumChar (hd (toUpperCase (trim s)))"
    using assms by (cases "trim s") (auto simp: toUpperCase_def upperChar_numChar)
  then have "takeWhile isNumChar (toUpperCase (trim s)) = []"
    by (simp add: takeWhile_eq_Nil_iff)
  then show ?thesis
    by (simp add: parseSizeToBytes_def matchSize_def Let_def)
qed

lemma parseSizeToBytes_junk_examples:
  "parseSizeToBytes ''5 TB'' = Num 0" "parseSizeToBytes ''12abc'' = Num 0"
  "parseSizeToBytes ''1e3'' = Num 0" "parseSizeToBytes [] = Num 0"
  by code_simp+

text \<open>
  A string of dots matches the pattern and holds no number: the result is \<open>NaN\<close>, not 0.
\<close>

lemma parseSizeToBytes_dot: "parseSizeToBytes ''.'' = NaN"
  by code_simp

lemma normalized_numChars:
  assumes "\<forall>c \<in> set num. isNumChar c"
  shows "toUpperCase (trim num) = num"
proof -
  from assms have "\<forall>c \<in> set num. \<not> isSpace c"
    by (simp add: isSpace_not_numChar)
  then have "trim num = num" by (rule trim_no_space)
  with assms show ?thesis by (simp add: toUpperCase_numChars)
qed

lemma parseSizeToBytes_no_unit:
  assumes "num \<noteq> []" and "\<forall>c \<in> set num. isNumChar c"
  shows "parseSizeToBytes num = times1024 (times1024 (parseFloat num))"
proof -
  from assms(2) have tw: "takeWhile isNumChar num = num" and dw: "dropWhile isNumChar num = []"
    by simp_all
  have "matchSize num = Some (num, [])"
    unfolding matchSize_def Let_def tw dw using assms(1) by simp
  then show ?thesis
    by (simp add: parseSizeToBytes_def normalized_numChars [OF assms(2)])
qed

lemma parseSizeToBytes_MB:
  assumes "num \<noteq> []" and "\<forall>c \<in> set num. isNumChar c"
  shows "parseSizeToBytes (num @ ''MB'') = times1024 (times1024 (parseFloat num))"
proof -
  have mb: "\<forall>c \<in> set ''MB''. \<not> isSpace c \<and> \<not> isNumChar c \<and> upperChar c = c"
    by (simp add: isSpace_def isNumChar_def isDigit_def upperChar_def)
  with assms(2) have "\<forall>c \<in> set (num @ ''MB''). \<not> isSpace c"
    by (auto simp: isSpace_not_numChar)
  then have t: "trim (num @ ''MB'') = num @ ''MB''"
    by (rule trim_no_space)
  have u: "toUpperCase (num @ ''MB'') = num @ ''MB''"
    using assms(2) mb by (simp add: toUpperCase_def upperChar_numChar_id map_idI)
  have "takeWhile isNumChar (num @ ''MB'') = num @ takeWhile isNumChar ''MB''"
    using assms(2) by (simp add: takeWhile_append2)
  then have tw: "takeWhile isNumChar (num @ ''MB'') = num"
    using mb by simp
  have "dropWhile isNumChar (num @ ''MB'') = dropWhile isNumChar ''MB''"
    using assms(2) by (simp add: dropWhile_append2)
  then have dw: "dropWhile isSpace (dropWhile isNumChar (num @ ''MB'')) = ''MB''"
    using mb by simp
  have "matchSize (num @ ''MB'') = Some (num, ''MB'')"
    unfolding matchSize_def Let_def tw dw using assms(1) by simp
  then show ?thesis
    by (simp add: parseSizeToBytes_def t u)
qed

text \<open>A number with no unit is read as the same number in MB.\<close>

lemma parseSizeToBytes_no_unit_is_MB:
  assumes "num \<noteq> []" and "\<forall>c \<in> set num. isNumChar c"
  shows "parseSizeToBytes num = parseSizeToBytes (num @ ''MB'')"
  using assms by (simp add: parseSizeToBytes_no_unit parseSizeToBytes_MB)

text \<open>The double of a decimal literal, and the scaling, on the values of the examples.\<close>

lemma toDouble_examples:
  "toDouble 104 100 = Num (4683743612465316 / 4503599627370496)"
  "toDouble 239 100 = Num (5381801554707743 / 2251799813685248)"
  "toDouble 500 1 = Num 500"
  by code_simp+

lemma parseSizeToBytes_MB_example:
  "parseSizeToBytes ''1.04 MB'' = Num (1170935903116329 / 1073741824)
   \<and> \<bar>1170935903116329 / 1073741824 - 1090519\<bar> \<le> (1 :: rat)"
proof -
  have m: "matchSize (toUpperCase (trim ''1.04 MB'')) = Some (''1.04'', ''MB'')"
    by code_simp
  have p: "parseFloat ''1.04'' = toDouble 104 100"
    by (simp add: parseFloat_def isDigit_def decimal_def digitValue_def)
  show ?thesis
    by (simp add: parseSizeToBytes_def m p toDouble_examples pow2_def)
qed

lemma parseSizeToBytes_no_unit_example: "parseSizeToBytes ''500'' = Num 524288000"
proof -
  have m: "matchSize (toUpperCase (trim ''500'')) = Some (''500'', [])"
    by code_simp
  have p: "parseFloat ''500'' = toDouble 500 1"
    by (simp add: parseFloat_def isDigit_def decimal_def digitValue_def)
  show ?thesis
    by (simp add: parseSizeToBytes_def m p toDouble_examples pow2_def)
qed

text \<open>A leading no-break space is trimmed like any other white space.\<close>

lemma parseSizeToBytes_nbsp:
  "parseSizeToBytes (CHR 0xA0 # ''500'') = parseSizeToBytes ''500''"
proof -
  have "trim (CHR 0xA0 # ''500'') = trim ''500''"
    by (simp add: trim_def isSpace_def)
  then show ?thesis
    by (simp add: parseSizeToBytes_def)
qed

text \<open>Beyond 53 bits the literal is rounded to the nearest double, ties to even.\<close>

lemma toDouble_rounds: "toDouble 9007199254740993 1 = Num 9007199254740992"
  by code_simp

text \<open>
  C6. At \<open>"2.39GB"\<close> the function returns the double nearest to 2.39 times \<open>1024 ^ 3\<close>,
  about 2566242959.36. The claim, and the function's own comment, give 2566914048 within
  1024: the result is more than 671088 away from it.
\<close>

theorem parseSizeToBytes_GB_example_off:
  "parseSizeToBytes ''2.39GB'' = Num (5381801554707743 / 2097152)
   \<and> \<not> \<bar>5381801554707743 / 2097152 - 2566914048\<bar> \<le> (1024 :: rat)
   \<and> \<bar>5381801554707743 / 2097152 - 2566242959\<bar> \<le> (1 :: rat)"
proof -
  have m: "matchSize (toUpperCase (trim ''2.39GB'')) = Some (''2.39'', ''GB'')"
    by code_simp
  have p: "parseFloat ''2.39'' = toDouble 239 100"
    by (simp add: parseFloat_def isDigit_def decimal_def digitValue_def)
  show ?thesis
    by (simp add: parseSizeToBytes_def m p toDouble_examples pow2_def)
qed

section \<open>Results for the message stream\<close>

lemma unmount_aborts_stream:
  assumes "streamAbortControllerRef a = Some c"
  shows "c \<in> abortedControllers (unmount a) \<and> \<not> isMountedRef (unmount a)"
  using assms by (simp add: unmount_def Let_def invoke_def split: option.splits)

lemma handleSend_registers_controller:
  assumes "handleSend userStamp aiStamp ctl streamStart a = (a', Some t)"
  shows "streamAbortControllerRef a' = Some ctl \<and> abortController t = ctl \<and> isMountedRef a'
       \<and> isLoading a' \<and> aiMessageId t = fst aiStamp"
  using assms
  by (auto simp: handleSend_def Let_def invoke_def scrollToBottomDebounced_def createMessage_def
      releaseStream_def split: if_splits outcome.splits)

lemma handleSend_stream_throws:
  "snd (handleSend userStamp aiStamp ctl Rejected a) = None"
  by (simp add: handleSend_def Let_def)

text \<open>
  C7. When a generation in flight fails and its stream was not cancelled (teardown
  cancels it, so the session is live), every message with the placeholder's id gets the
  fixed error text, all other messages are kept, \<open>isLoading\<close> is cleared and the stream
  controller slot is emptied, so that a send with non-blank input on a ready model starts
  again. When the stream was cancelled, the failure changes neither the messages nor
  \<open>isLoading\<close> nor anything else of the state; it only empties the controller slot.
\<close>

theorem stream_failure_recovers_or_leaves:
  "(abortController t \<notin> abortedControllers a
      \<and> (\<not> isMountedRef a \<longrightarrow> abortController t \<in> abortedControllers a) \<longrightarrow>
      (let (a', t') = resumeSend t StreamError a
       in t' = None
          \<and> messages a' =
              map (\<lambda>msg. if id_msg msg = aiMessageId t then msg\<lparr>text_msg := ERROR_MESSAGE\<rparr>
                         else msg) (messages a)
          \<and> \<not> isLoading a'
          \<and> streamAbortControllerRef a' = None
          \<and> (\<forall>inp us ai c.
                trim inp \<noteq> [] \<and> modelStatus a' = ready \<and> modelRef a' \<noteq> None \<longrightarrow>
                snd (handleSend us ai c (Resolved ()) (a'\<lparr>inputText := inp\<rparr>)) \<noteq> None)))
   \<and> (abortController t \<in> abortedControllers a \<longrightarrow>
        resumeSend t StreamError a = (a\<lparr>streamAbortControllerRef := None\<rparr>, None)
        \<and> messages (fst (resumeSend t StreamError a)) = messages a
        \<and> isLoading (fst (resumeSend t StreamError a)) = isLoading a)"
proof (intro conjI impI)
  assume h: "abortController t \<notin> abortedControllers a
      \<and> (\<not> isMountedRef a \<longrightarrow> abortController t \<in> abortedControllers a)"
  then have live: "isMountedRef a" and nc: "abortController t \<notin> abortedControllers a"
    by blast+
  let ?a' = "onStreamError t a"
  have m: "messages ?a' =
      map (\<lambda>msg. if id_msg msg = aiMessageId t then msg\<lparr>text_msg := ERROR_MESSAGE\<rparr> else msg)
        (messages a)"
    using live nc
    by (simp add: onStreamError_def releaseStream_def scrollToBottomDebounced_def setTextById_def)
  have l: "\<not> isLoading ?a'" and r: "streamAbortControllerRef ?a' = None"
    and mo: "isMountedRef ?a'"
    using live nc
    by (simp_all add: onStreamError_def releaseStream_def scrollToBottomDebounced_def)
  have again: "snd (handleSend us ai c (Resolved ()) (?a'\<lparr>inputText := inp\<rparr>)) \<noteq> None"
    if "trim inp \<noteq> [] \<and> modelStatus ?a' = ready \<and> modelRef ?a' \<noteq> None" for inp us ai c
    using that l mo by (simp add: handleSend_def Let_def scrollToBottomDebounced_def invoke_def)
  from m l r again
  show "let (a', t') = resumeSend t StreamError a
       in t' = None
          \<and> messages a' =
              map (\<lambda>msg. if id_msg msg = aiMessageId t then msg\<lparr>text_msg := ERROR_MESSAGE\<rparr>
                         else msg) (messages a)
          \<and> \<not> isLoading a'
          \<and> streamAbortControllerRef a' = None
          \<and> (\<forall>inp us ai c.
                trim inp \<noteq> [] \<and> modelStatus a' = ready \<and> modelRef a' \<noteq> None \<longrightarrow>
                snd (handleSend us ai c (Resolved ()) (a'\<lparr>inputText := inp\<rparr>)) \<noteq> None)"
    by simp
next
  assume c: "abortController t \<in> abortedControllers a"
  then show "resumeSend t StreamError a = (a\<lparr>streamAbortControllerRef := None\<rparr>, None)"
    by (simp add: onStreamError_def releaseStream_def)
  from c show "messages (fst (resumeSend t StreamError a)) = messages a"
    by (simp add: onStreamError_def releaseStream_def)
  from c show "isLoading (fst (resumeSend t StreamError a)) = isLoading a"
    by (simp add: onStreamError_def releaseStream_def)
qed

theorem stream_failure_recovers_or_leaves_witness:
  "messages (fst (resumeSend taskOne StreamError chatStreaming))
     = [createMessage ''10-u'' 10 ''Hello'' True,
        createMessage ''11-a'' 11 ERROR_MESSAGE False]
   \<and> \<not> isLoading (fst (resumeSend taskOne StreamError chatStreaming))
   \<and> streamAbortControllerRef (fst (resumeSend taskOne StreamError chatStreaming)) = None
   \<and> resumeSend taskOne StreamError (unmount chatStreaming) = (unmount chatStreaming, None)"
proof -
  have h1: "abortController taskOne \<notin> abortedControllers chatStreaming
      \<and> (\<not> isMountedRef chatStreaming \<longrightarrow> abortController taskOne \<in> abortedControllers chatStreaming)"
    by (simp add: taskOne_def chatStreaming_def chatReady_def chatFresh_def)
  have h2: "abortController taskOne \<in> abortedControllers (unmount chatStreaming)"
    by (simp add: taskOne_def chatStreaming_def chatReady_def chatFresh_def unmount_def invoke_def)
  have u: "unmount chatStreaming\<lparr>streamAbortControllerRef := None\<rparr> = unmount chatStreaming"
    by (simp add: chatStreaming_def chatReady_def chatFresh_def unmount_def invoke_def)
  have ms: "map (\<lambda>msg. if id_msg msg = aiMessageId taskOne then msg\<lparr>text_msg := ERROR_MESSAGE\<rparr>
                        else msg) (messages chatStreaming)
      = [createMessage ''10-u'' 10 ''Hello'' True, createMessage ''11-a'' 11 ERROR_MESSAGE False]"
    by (simp add: taskOne_def chatStreaming_def createMessage_def)
  note T1 = stream_failure_recovers_or_leaves [where t = taskOne and a = chatStreaming]
  note T2 = stream_failure_recovers_or_leaves [where t = taskOne and a = "unmount chatStreaming"]
  obtain a' t' where res: "resumeSend taskOne StreamError chatStreaming = (a', t')"
    by (cases "resumeSend taskOne StreamError chatStreaming") auto
  from T1 h1 have "messages a' =
      map (\<lambda>msg. if id_msg msg = aiMessageId taskOne then msg\<lparr>text_msg := ERROR_MESSAGE\<rparr>
                 else msg) (messages chatStreaming)
      \<and> \<not> isLoading a' \<and> streamAbortControllerRef a' = None"
    unfolding res Let_def prod.case by blast
  moreover from T2 h2 have "resumeSend taskOne StreamError (unmount chatStreaming)
      = (unmount chatStreaming\<lparr>streamAbortControllerRef := None\<rparr>, None)"
    by blast
  ultimately show ?thesis
    unfolding res fst_conv ms u by blast
qed


end
